theory Spec2Isabelle
  imports Complex_Main "HOL-Library.Sublist"
begin

section \<open>AgriConnect: schema, row-level policies and the client operations\<close>

text \<open>
  The development embeds the migration
  \<^verbatim>\<open>supabase/migrations/20251016160138_create_agriconnect_schema.sql\<close> (tables,
  constraints and row-level-security policies) and the client functions that write to
  those tables (\<^verbatim>\<open>handlePlaceOrder\<close>, \<^verbatim>\<open>handleUpdateStatus\<close>,
  \<^verbatim>\<open>handleSubmit\<close>, \<^verbatim>\<open>filterProducts\<close>).

  Conventions.
  \<^item> A column value is an \<open>option\<close>: \<open>None\<close> is SQL \<open>NULL\<close>. \<open>NOT NULL\<close> is a
    constraint checked on write, as in the database, not a property of the type.
  \<^item> Column names repeat across tables, so every column carries a table prefix:
    \<open>pf_\<close> profiles, \<open>pr_\<close> products, \<open>od_\<close> orders, \<open>ms_\<close> messages. Fields of
    a request body carry the further prefix \<open>b_\<close>; fields of the TypeScript interfaces
    of \<^verbatim>\<open>lib/supabase\<close> carry a capital prefix (\<open>P_\<close>, \<open>O_\<close>, \<open>U_\<close>).
  \<^item> \<open>uuid\<close>, \<open>text\<close> and \<open>timestamptz\<close> values are strings: a text is the
    sequence of bytes of its UTF-8 form. One well-formed text occurs in another as a run
    of bytes exactly when it occurs as a run of UTF-16 code units, which is what
    \<open>includes\<close> tests in the client.
  \<^item> SQL \<open>numeric\<close> values are rationals; the special values \<open>NaN\<close> and
    \<open>Infinity\<close> of \<open>numeric\<close>, which no request of the client carries, are left out.
    A JavaScript \<open>number\<close> is an IEEE 754 double: its finite values are the rationals
    that \<open>to_double\<close> returns, and its arithmetic rounds.
  \<^item> \<open>auth.uid()\<close> is the \<open>uuid option\<close> of the session: \<open>None\<close> is a request
    without an authenticated principal. Every policy of the migration is declared
    \<open>TO authenticated\<close>, so no policy applies to such a request and it is denied.
\<close>

type_synonym uuid = string
type_synonym timestamptz = string
type_synonym numeric = rat

subsection \<open>SQL three-valued logic\<close>

type_synonym sqlbool = "bool option"

definition sql_eq :: "'a option \<Rightarrow> 'a option \<Rightarrow> sqlbool" where
  "sql_eq a b = (case a of None \<Rightarrow> None
                 | Some x \<Rightarrow> (case b of None \<Rightarrow> None | Some y \<Rightarrow> Some (x = y)))"

definition sql_gt :: "numeric option \<Rightarrow> numeric option \<Rightarrow> sqlbool" where
  "sql_gt a b = (case a of None \<Rightarrow> None
                 | Some x \<Rightarrow> (case b of None \<Rightarrow> None | Some y \<Rightarrow> Some (x > y)))"

definition sql_ge :: "numeric option \<Rightarrow> numeric option \<Rightarrow> sqlbool" where
  "sql_ge a b = (case a of None \<Rightarrow> None
                 | Some x \<Rightarrow> (case b of None \<Rightarrow> None | Some y \<Rightarrow> Some (x \<ge> y)))"

fun sql_or :: "sqlbool \<Rightarrow> sqlbool \<Rightarrow> sqlbool" where
  "sql_or (Some True) _ = Some True"
| "sql_or _ (Some True) = Some True"
| "sql_or (Some False) (Some False) = Some False"
| "sql_or _ _ = None"

fun sql_and :: "sqlbool \<Rightarrow> sqlbool \<Rightarrow> sqlbool" where
  "sql_and (Some False) _ = Some False"
| "sql_and _ (Some False) = Some False"
| "sql_and (Some True) (Some True) = Some True"
| "sql_and _ _ = None"

definition sql_in :: "'a option \<Rightarrow> 'a list \<Rightarrow> sqlbool" where
  \<comment> \<open>\<open>x IN (v1, ..., vn)\<close> with non-null literals.\<close>
  "sql_in a vs = (case a of None \<Rightarrow> None | Some x \<Rightarrow> Some (x \<in> set vs))"

definition sql_is_true :: "sqlbool \<Rightarrow> bool" where
  \<comment> \<open>\<open>WHERE\<close>, \<open>USING\<close> and \<open>WITH CHECK\<close> accept a row only when the condition is true.\<close>
  "sql_is_true b = (b = Some True)"

definition sql_check_ok :: "sqlbool \<Rightarrow> bool" where
  \<comment> \<open>A \<open>CHECK\<close> constraint is violated only when its condition is false.\<close>
  "sql_check_ok b = (b \<noteq> Some False)"

subsection \<open>Tables\<close>

record profiles_row =
  pf_id :: "uuid option"
  pf_user_type :: "string option"
  pf_full_name :: "string option"
  pf_phone :: "string option"
  pf_location :: "string option"
  pf_latitude :: "numeric option"
  pf_longitude :: "numeric option"
  pf_bio :: "string option"
  pf_avatar_url :: "string option"
  pf_created_at :: "timestamptz option"
  pf_updated_at :: "timestamptz option"

record products_row =
  pr_id :: "uuid option"
  pr_farmer_id :: "uuid option"
  pr_name :: "string option"
  pr_description :: "string option"
  pr_category :: "string option"
  pr_price :: "numeric option"
  pr_unit :: "string option"
  pr_quantity_available :: "numeric option"
  pr_image_url :: "string option"
  pr_location :: "string option"
  pr_is_available :: "bool option"
  pr_created_at :: "timestamptz option"
  pr_updated_at :: "timestamptz option"

record orders_row =
  od_id :: "uuid option"
  od_product_id :: "uuid option"
  od_retailer_id :: "uuid option"
  od_farmer_id :: "uuid option"
  od_quantity :: "numeric option"
  od_total_price :: "numeric option"
  od_status :: "string option"
  od_payment_method :: "string option"
  od_delivery_address :: "string option"
  od_notes :: "string option"
  od_created_at :: "timestamptz option"
  od_updated_at :: "timestamptz option"

record messages_row =
  ms_id :: "uuid option"
  ms_sender_id :: "uuid option"
  ms_receiver_id :: "uuid option"
  ms_product_id :: "uuid option"
  ms_message :: "string option"
  ms_is_read :: "bool option"
  ms_created_at :: "timestamptz option"

record database =
  profiles :: "profiles_row list"
  products :: "products_row list"
  orders :: "orders_row list"
  messages :: "messages_row list"

datatype db_error =
  PolicyViolation | NotNullViolation | CheckViolation | UniqueViolation | ForeignKeyViolation

text \<open>
  A request body names some columns and omits the others. A column that is omitted takes
  its default on insert and keeps its value on update; a column sent as \<open>null\<close> is set
  to \<open>NULL\<close>.
\<close>

datatype 'a field = Absent | Null | Val 'a

fun on_insert :: "'a option \<Rightarrow> 'a field \<Rightarrow> 'a option" where
  "on_insert dflt Absent = dflt"
| "on_insert dflt Null = None"
| "on_insert dflt (Val v) = Some v"

fun on_update :: "'a option \<Rightarrow> 'a field \<Rightarrow> 'a option" where
  "on_update old Absent = old"
| "on_update old Null = None"
| "on_update old (Val v) = Some v"

definition has_profile :: "profiles_row list \<Rightarrow> uuid option \<Rightarrow> string \<Rightarrow> bool" where
  \<comment> \<open>\<open>EXISTS (SELECT 1 FROM profiles WHERE id = auth.uid() AND user_type = t)\<close>;
      every profile row is visible to an authenticated session (\<open>USING (true)\<close>).\<close>
  "has_profile profs uid t =
     list_ex (\<lambda>p. sql_is_true (sql_and (sql_eq (pf_id p) uid) (sql_eq (pf_user_type p) (Some t))))
       profs"

definition references :: "uuid option list \<Rightarrow> uuid option \<Rightarrow> bool" where
  \<comment> \<open>A foreign key holds when the referencing column is \<open>NULL\<close> or its value is a key
      of the referenced table.\<close>
  "references keys k = (k = None \<or> k \<in> set keys)"

subsection \<open>products: policies and constraints\<close>

definition products_select_policy :: "uuid option \<Rightarrow> products_row \<Rightarrow> bool" where
  \<comment> \<open>"Anyone can view available products".\<close>
  "products_select_policy auth row =
     (case auth of None \<Rightarrow> False
      | Some uid \<Rightarrow>
          sql_is_true (sql_or (sql_eq (pr_is_available row) (Some True))
                              (sql_eq (pr_farmer_id row) (Some uid))))"

definition select_products :: "database \<Rightarrow> uuid option \<Rightarrow> products_row list" where
  \<comment> \<open>\<open>SELECT * FROM products\<close> under row-level security: the rows the policy rejects
      are left out of the result.\<close>
  "select_products db auth = filter (products_select_policy auth) (products db)"


record products_body =
  b_pr_id :: "uuid field"
  b_pr_farmer_id :: "uuid field"
  b_pr_name :: "string field"
  b_pr_description :: "string field"
  b_pr_category :: "string field"
  b_pr_price :: "numeric field"
  b_pr_unit :: "string field"
  b_pr_quantity_available :: "numeric field"
  b_pr_image_url :: "string field"
  b_pr_location :: "string field"
  b_pr_is_available :: "bool field"
  b_pr_created_at :: "timestamptz field"
  b_pr_updated_at :: "timestamptz field"

definition products_new_row :: "uuid \<Rightarrow> timestamptz \<Rightarrow> products_body \<Rightarrow> products_row" where
  \<comment> \<open>The candidate row of an insert: \<open>gen\<close> is the value of \<open>gen_random_uuid()\<close> and
      \<open>now\<close> the value of \<open>now()\<close> for this statement.\<close>
  "products_new_row gen now b =
     \<lparr> pr_id = on_insert (Some gen) (b_pr_id b),
       pr_farmer_id = on_insert None (b_pr_farmer_id b),
       pr_name = on_insert None (b_pr_name b),
       pr_description = on_insert None (b_pr_description b),
       pr_category = on_insert None (b_pr_category b),
       pr_price = on_insert None (b_pr_price b),
       pr_unit = on_insert (Some ''kg'') (b_pr_unit b),
       pr_quantity_available = on_insert None (b_pr_quantity_available b),
       pr_image_url = on_insert None (b_pr_image_url b),
       pr_location = on_insert None (b_pr_location b),
       pr_is_available = on_insert (Some True) (b_pr_is_available b),
       pr_created_at = on_insert (Some now) (b_pr_created_at b),
       pr_updated_at = on_insert (Some now) (b_pr_updated_at b) \<rparr>"

definition products_set :: "products_body \<Rightarrow> products_row \<Rightarrow> products_row" where
  \<comment> \<open>The \<open>SET\<close> list of an update: only the columns of the body are assigned.\<close>
  "products_set b r =
     \<lparr> pr_id = on_update (pr_id r) (b_pr_id b),
       pr_farmer_id = on_update (pr_farmer_id r) (b_pr_farmer_id b),
       pr_name = on_update (pr_name r) (b_pr_name b),
       pr_description = on_update (pr_description r) (b_pr_description b),
       pr_category = on_update (pr_category r) (b_pr_category b),
       pr_price = on_update (pr_price r) (b_pr_price b),
       pr_unit = on_update (pr_unit r) (b_pr_unit b),
       pr_quantity_available = on_update (pr_quantity_available r) (b_pr_quantity_available b),
       pr_image_url = on_update (pr_image_url r) (b_pr_image_url b),
       pr_location = on_update (pr_location r) (b_pr_location b),
       pr_is_available = on_update (pr_is_available r) (b_pr_is_available b),
       pr_created_at = on_update (pr_created_at r) (b_pr_created_at b),
       pr_updated_at = on_update (pr_updated_at r) (b_pr_updated_at b) \<rparr>"

definition products_insert_policy :: "profiles_row list \<Rightarrow> uuid option \<Rightarrow> products_row \<Rightarrow> bool" where
  \<comment> \<open>"Farmers can insert own products".\<close>
  "products_insert_policy profs auth row =
     (case auth of None \<Rightarrow> False
      | Some uid \<Rightarrow>
          sql_is_true (sql_and (sql_eq (pr_farmer_id row) (Some uid))
                               (Some (has_profile profs (Some uid) ''farmer''))))"

definition products_update_using :: "uuid option \<Rightarrow> products_row \<Rightarrow> bool" where
  \<comment> \<open>"Farmers can update own products", \<open>USING\<close>: which existing rows the update sees.\<close>
  "products_update_using auth row =
     (case auth of None \<Rightarrow> False
      | Some uid \<Rightarrow> sql_is_true (sql_eq (pr_farmer_id row) (Some uid)))"

definition products_update_check :: "uuid option \<Rightarrow> products_row \<Rightarrow> bool" where
  \<comment> \<open>"Farmers can update own products", \<open>WITH CHECK\<close>: what the new row must satisfy.\<close>
  "products_update_check auth row =
     (case auth of None \<Rightarrow> False
      | Some uid \<Rightarrow> sql_is_true (sql_eq (pr_farmer_id row) (Some uid)))"

definition products_not_null :: "products_row \<Rightarrow> bool" where
  "products_not_null row =
     (pr_id row \<noteq> None \<and> pr_farmer_id row \<noteq> None \<and> pr_name row \<noteq> None \<and>
      pr_category row \<noteq> None \<and> pr_price row \<noteq> None \<and> pr_unit row \<noteq> None \<and>
      pr_quantity_available row \<noteq> None)"

definition products_check :: "products_row \<Rightarrow> bool" where
  "products_check row =
     (sql_check_ok (sql_ge (pr_price row) (Some 0)) \<and>
      sql_check_ok (sql_ge (pr_quantity_available row) (Some 0)))"

definition products_row_error :: "bool \<Rightarrow> products_row \<Rightarrow> db_error option" where
  \<comment> \<open>The row-level checks of a write, in the order the executor makes them: the policy's
      \<open>WITH CHECK\<close> first, then \<open>NOT NULL\<close>, then \<open>CHECK\<close>.\<close>
  "products_row_error allowed row =
     (if \<not> allowed then Some PolicyViolation
      else if \<not> products_not_null row then Some NotNullViolation
      else if \<not> products_check row then Some CheckViolation
      else None)"

definition products_keys_error :: "database \<Rightarrow> products_row list \<Rightarrow> db_error option" where
  \<comment> \<open>The key checks, stated on the table as it would be after the write: the primary
      key is unique; \<open>farmer_id\<close> references profiles; the \<open>product_id\<close> of every order
      and message still references a product. On a table that satisfied its keys before
      the write, these are the checks of the written rows.\<close>
  "products_keys_error db rows =
     (if \<not> distinct (map pr_id rows) then Some UniqueViolation
      else if \<not> list_all (\<lambda>r. references (map pf_id (profiles db)) (pr_farmer_id r)) rows
              \<or> \<not> list_all (\<lambda>x. references (map pr_id rows) (od_product_id x)) (orders db)
              \<or> \<not> list_all (\<lambda>x. references (map pr_id rows) (ms_product_id x)) (messages db)
      then Some ForeignKeyViolation
      else None)"

fun first_error :: "db_error option list \<Rightarrow> db_error option" where
  "first_error [] = None"
| "first_error (None # es) = first_error es"
| "first_error (Some e # es) = Some e"

definition insert_products ::
  "database \<Rightarrow> uuid option \<Rightarrow> uuid \<Rightarrow> timestamptz \<Rightarrow> products_body \<Rightarrow> db_error + database" where
  \<comment> \<open>\<open>INSERT INTO products\<close> of one row. A failed statement leaves the database as it
      was: the result is the error alone.\<close>
  "insert_products db auth gen now b =
     (let row = products_new_row gen now b;
          rows = products db @ [row]
      in case products_row_error (products_insert_policy (profiles db) auth row) row of
           Some e \<Rightarrow> Inl e
         | None \<Rightarrow>
             (case products_keys_error db rows of
                Some e \<Rightarrow> Inl e
              | None \<Rightarrow> Inr (db\<lparr>products := rows\<rparr>)))"

definition update_products ::
  "database \<Rightarrow> uuid option \<Rightarrow> (products_row \<Rightarrow> bool) \<Rightarrow> products_body \<Rightarrow> db_error + database" where
  \<comment> \<open>\<open>UPDATE products SET ... WHERE wh\<close>. Rows that the \<open>USING\<close> condition rejects are
      not updated and raise no error. An update with a \<open>WHERE\<close> clause also reads the
      rows, so the \<open>SELECT\<close> policy applies to them as well; it accepts every row that
      \<open>USING\<close> accepts (\<open>products_update_using_visible\<close> below) and is left out here.\<close>
  "update_products db auth wh b =
     (let hit = (\<lambda>r. wh r \<and> products_update_using auth r);
          rows = map (\<lambda>r. if hit r then products_set b r else r) (products db)
      in case first_error
                (map (\<lambda>r. products_row_error (products_update_check auth (products_set b r))
                             (products_set b r))
                   (filter hit (products db))) of
           Some e \<Rightarrow> Inl e
         | None \<Rightarrow>
             (case products_keys_error db rows of
                Some e \<Rightarrow> Inl e
              | None \<Rightarrow> Inr (db\<lparr>products := rows\<rparr>)))"


subsection \<open>orders: policies and constraints\<close>

record orders_body =
  b_od_id :: "uuid field"
  b_od_product_id :: "uuid field"
  b_od_retailer_id :: "uuid field"
  b_od_farmer_id :: "uuid field"
  b_od_quantity :: "numeric field"
  b_od_total_price :: "numeric field"
  b_od_status :: "string field"
  b_od_payment_method :: "string field"
  b_od_delivery_address :: "string field"
  b_od_notes :: "string field"
  b_od_created_at :: "timestamptz field"
  b_od_updated_at :: "timestamptz field"

definition orders_new_row :: "uuid \<Rightarrow> timestamptz \<Rightarrow> orders_body \<Rightarrow> orders_row" where
  "orders_new_row gen now b =
     \<lparr> od_id = on_insert (Some gen) (b_od_id b),
       od_product_id = on_insert None (b_od_product_id b),
       od_retailer_id = on_insert None (b_od_retailer_id b),
       od_farmer_id = on_insert None (b_od_farmer_id b),
       od_quantity = on_insert None (b_od_quantity b),
       od_total_price = on_insert None (b_od_total_price b),
       od_status = on_insert (Some ''pending'') (b_od_status b),
       od_payment_method = on_insert None (b_od_payment_method b),
       od_delivery_address = on_insert None (b_od_delivery_address b),
       od_notes = on_insert None (b_od_notes b),
       od_created_at = on_insert (Some now) (b_od_created_at b),
       od_updated_at = on_insert (Some now) (b_od_updated_at b) \<rparr>"

definition orders_set :: "orders_body \<Rightarrow> orders_row \<Rightarrow> orders_row" where
  "orders_set b r =
     \<lparr> od_id = on_update (od_id r) (b_od_id b),
       od_product_id = on_update (od_product_id r) (b_od_product_id b),
       od_retailer_id = on_update (od_retailer_id r) (b_od_retailer_id b),
       od_farmer_id = on_update (od_farmer_id r) (b_od_farmer_id b),
       od_quantity = on_update (od_quantity r) (b_od_quantity b),
       od_total_price = on_update (od_total_price r) (b_od_total_price b),
       od_status = on_update (od_status r) (b_od_status b),
       od_payment_method = on_update (od_payment_method r) (b_od_payment_method b),
       od_delivery_address = on_update (od_delivery_address r) (b_od_delivery_address b),
       od_notes = on_update (od_notes r) (b_od_notes b),
       od_created_at = on_update (od_created_at r) (b_od_created_at b),
       od_updated_at = on_update (od_updated_at r) (b_od_updated_at b) \<rparr>"

definition orders_insert_policy :: "profiles_row list \<Rightarrow> uuid option \<Rightarrow> orders_row \<Rightarrow> bool" where
  \<comment> \<open>"Retailers can create orders".\<close>
  "orders_insert_policy profs auth row =
     (case auth of None \<Rightarrow> False
      | Some uid \<Rightarrow>
          sql_is_true (sql_and (sql_eq (od_retailer_id row) (Some uid))
                               (Some (has_profile profs (Some uid) ''retailer''))))"

definition orders_select_policy :: "uuid option \<Rightarrow> orders_row \<Rightarrow> bool" where
  \<comment> \<open>"Users can view own orders".\<close>
  "orders_select_policy auth row =
     (case auth of None \<Rightarrow> False
      | Some uid \<Rightarrow>
          sql_is_true (sql_or (sql_eq (od_retailer_id row) (Some uid))
                              (sql_eq (od_farmer_id row) (Some uid))))"

definition orders_update_using :: "uuid option \<Rightarrow> orders_row \<Rightarrow> bool" where
  \<comment> \<open>"Order parties can update orders", \<open>USING\<close>.\<close>
  "orders_update_using auth row =
     (case auth of None \<Rightarrow> False
      | Some uid \<Rightarrow>
          sql_is_true (sql_or (sql_eq (od_retailer_id row) (Some uid))
                              (sql_eq (od_farmer_id row) (Some uid))))"

definition orders_update_check :: "uuid option \<Rightarrow> orders_row \<Rightarrow> bool" where
  \<comment> \<open>"Order parties can update orders", \<open>WITH CHECK\<close>.\<close>
  "orders_update_check auth row =
     (case auth of None \<Rightarrow> False
      | Some uid \<Rightarrow>
          sql_is_true (sql_or (sql_eq (od_retailer_id row) (Some uid))
                              (sql_eq (od_farmer_id row) (Some uid))))"

definition orders_not_null :: "orders_row \<Rightarrow> bool" where
  "orders_not_null row =
     (od_id row \<noteq> None \<and> od_product_id row \<noteq> None \<and> od_retailer_id row \<noteq> None \<and>
      od_farmer_id row \<noteq> None \<and> od_quantity row \<noteq> None \<and> od_total_price row \<noteq> None \<and>
      od_status row \<noteq> None \<and> od_payment_method row \<noteq> None \<and>
      od_delivery_address row \<noteq> None)"

definition orders_check :: "orders_row \<Rightarrow> bool" where
  "orders_check row =
     (sql_check_ok (sql_gt (od_quantity row) (Some 0)) \<and>
      sql_check_ok (sql_ge (od_total_price row) (Some 0)) \<and>
      sql_check_ok (sql_in (od_status row) [''pending'', ''accepted'', ''rejected'', ''completed'']) \<and>
      sql_check_ok (sql_in (od_payment_method row) [''online'', ''cash_on_delivery'']))"

definition orders_row_error :: "bool \<Rightarrow> orders_row \<Rightarrow> db_error option" where
  "orders_row_error allowed row =
     (if \<not> allowed then Some PolicyViolation
      else if \<not> orders_not_null row then Some NotNullViolation
      else if \<not> orders_check row then Some CheckViolation
      else None)"

definition orders_keys_error :: "database \<Rightarrow> orders_row list \<Rightarrow> db_error option" where
  \<comment> \<open>Primary key unique; \<open>product_id\<close> references products; \<open>retailer_id\<close> and
      \<open>farmer_id\<close> reference profiles. No table references orders.\<close>
  "orders_keys_error db rows =
     (if \<not> distinct (map od_id rows) then Some UniqueViolation
      else if \<not> list_all (\<lambda>r. references (map pr_id (products db)) (od_product_id r) \<and>
                                references (map pf_id (profiles db)) (od_retailer_id r) \<and>
                                references (map pf_id (profiles db)) (od_farmer_id r)) rows
      then Some ForeignKeyViolation
      else None)"

definition insert_orders ::
  "database \<Rightarrow> uuid option \<Rightarrow> uuid \<Rightarrow> timestamptz \<Rightarrow> orders_body \<Rightarrow> db_error + database" where
  "insert_orders db auth gen now b =
     (let row = orders_new_row gen now b;
          rows = orders db @ [row]
      in case orders_row_error (orders_insert_policy (profiles db) auth row) row of
           Some e \<Rightarrow> Inl e
         | None \<Rightarrow>
             (case orders_keys_error db rows of
                Some e \<Rightarrow> Inl e
              | None \<Rightarrow> Inr (db\<lparr>orders := rows\<rparr>)))"

definition update_orders ::
  "database \<Rightarrow> uuid option \<Rightarrow> (orders_row \<Rightarrow> bool) \<Rightarrow> orders_body \<Rightarrow> db_error + database" where
  \<comment> \<open>As \<open>update_products\<close>; the \<open>SELECT\<close> policy of orders is the \<open>USING\<close> condition
      itself (\<open>orders_update_using_visible\<close> below).\<close>
  "update_orders db auth wh b =
     (let hit = (\<lambda>r. wh r \<and> orders_update_using auth r);
          rows = map (\<lambda>r. if hit r then orders_set b r else r) (orders db)
      in case first_error
                (map (\<lambda>r. orders_row_error (orders_update_check auth (orders_set b r))
                             (orders_set b r))
                   (filter hit (orders db))) of
           Some e \<Rightarrow> Inl e
         | None \<Rightarrow>
             (case orders_keys_error db rows of
                Some e \<Rightarrow> Inl e
              | None \<Rightarrow> Inr (db\<lparr>orders := rows\<rparr>)))"

subsection \<open>messages: policies and constraints\<close>

record messages_body =
  b_ms_id :: "uuid field"
  b_ms_sender_id :: "uuid field"
  b_ms_receiver_id :: "uuid field"
  b_ms_product_id :: "uuid field"
  b_ms_message :: "string field"
  b_ms_is_read :: "bool field"
  b_ms_created_at :: "timestamptz field"

definition messages_new_row :: "uuid \<Rightarrow> timestamptz \<Rightarrow> messages_body \<Rightarrow> messages_row" where
  "messages_new_row gen now b =
     \<lparr> ms_id = on_insert (Some gen) (b_ms_id b),
       ms_sender_id = on_insert None (b_ms_sender_id b),
       ms_receiver_id = on_insert None (b_ms_receiver_id b),
       ms_product_id = on_insert None (b_ms_product_id b),
       ms_message = on_insert None (b_ms_message b),
       ms_is_read = on_insert (Some False) (b_ms_is_read b),
       ms_created_at = on_insert (Some now) (b_ms_created_at b) \<rparr>"

definition messages_insert_policy :: "uuid option \<Rightarrow> messages_row \<Rightarrow> bool" where
  \<comment> \<open>"Users can send messages".\<close>
  "messages_insert_policy auth row =
     (case auth of None \<Rightarrow> False
      | Some uid \<Rightarrow> sql_is_true (sql_eq (ms_sender_id row) (Some uid)))"

definition messages_not_null :: "messages_row \<Rightarrow> bool" where
  "messages_not_null row =
     (ms_id row \<noteq> None \<and> ms_sender_id row \<noteq> None \<and> ms_receiver_id row \<noteq> None \<and>
      ms_message row \<noteq> None)"

definition messages_row_error :: "bool \<Rightarrow> messages_row \<Rightarrow> db_error option" where
  \<comment> \<open>The table has no \<open>CHECK\<close> constraint.\<close>
  "messages_row_error allowed row =
     (if \<not> allowed then Some PolicyViolation
      else if \<not> messages_not_null row then Some NotNullViolation
      else None)"

definition messages_keys_error :: "database \<Rightarrow> messages_row list \<Rightarrow> db_error option" where
  "messages_keys_error db rows =
     (if \<not> distinct (map ms_id rows) then Some UniqueViolation
      else if \<not> list_all (\<lambda>r. references (map pf_id (profiles db)) (ms_sender_id r) \<and>
                                references (map pf_id (profiles db)) (ms_receiver_id r) \<and>
                                references (map pr_id (products db)) (ms_product_id r)) rows
      then Some ForeignKeyViolation
      else None)"

definition insert_messages ::
  "database \<Rightarrow> uuid option \<Rightarrow> uuid \<Rightarrow> timestamptz \<Rightarrow> messages_body \<Rightarrow> db_error + database" where
  "insert_messages db auth gen now b =
     (let row = messages_new_row gen now b;
          rows = messages db @ [row]
      in case messages_row_error (messages_insert_policy auth row) row of
           Some e \<Rightarrow> Inl e
         | None \<Rightarrow>
             (case messages_keys_error db rows of
                Some e \<Rightarrow> Inl e
              | None \<Rightarrow> Inr (db\<lparr>messages := rows\<rparr>)))"


section \<open>The client\<close>

subsection \<open>JavaScript values\<close>

text \<open>
  A JavaScript \<open>number\<close> is an IEEE 754 double: a finite value or one of \<open>NaN\<close>,
  \<open>Infinity\<close>, \<open>-Infinity\<close>. The three are kept as one value \<open>NonFinite\<close>: a
  product with one of them is again one of them, and \<open>JSON.stringify\<close> writes each of
  them as \<open>null\<close>. The sign of zero is not kept (\<open>-0\<close> is written \<open>0\<close>).
  \<open>parseFloat\<close> is a parameter of the functions that call it.
\<close>

datatype number = Finite rat | NonFinite

function floorlog_int :: "int \<Rightarrow> int \<Rightarrow> int" where
  \<comment> \<open>For \<open>b \<ge> 2\<close> and \<open>n \<ge> 1\<close>: the \<open>e\<close> with \<open>b ^ e \<le> n < b ^ (e + 1)\<close>.\<close>
  "floorlog_int b n = (if b < 2 \<or> n < b then 0 else 1 + floorlog_int b (n div b))"
  by pat_completeness auto
termination
  by (relation "measure (\<lambda>(b, n). nat n)") (auto simp: int_div_less_self)

definition scale :: "int \<Rightarrow> int \<Rightarrow> rat" where
  \<comment> \<open>\<open>b\<close> to the power \<open>e\<close>, for an exponent of either sign.\<close>
  "scale b e = (if 0 \<le> e then of_int b ^ nat e else 1 / of_int b ^ nat (- e))"

definition below :: "int \<Rightarrow> rat \<Rightarrow> int \<Rightarrow> int" where
  "below b x t = (if scale b (- t) \<le> x then - t else - t - 1)"

definition floorlog :: "int \<Rightarrow> rat \<Rightarrow> int" where
  \<comment> \<open>For \<open>x > 0\<close>: the \<open>e\<close> with \<open>scale b e \<le> x < scale b (e + 1)\<close>. Below 1 it is
      found from the reciprocal.\<close>
  "floorlog b x =
     (if 1 \<le> x then floorlog_int b \<lfloor>x\<rfloor> else below b x (floorlog_int b \<lfloor>1 / x\<rfloor>))"

definition nearest :: "rat \<Rightarrow> int \<Rightarrow> int" where
  "nearest y f =
     (if y - of_int f < 1 / 2 then f else if 1 / 2 < y - of_int f then f + 1
      else if even f then f else f + 1)"

definition round_half_even :: "rat \<Rightarrow> int" where
  \<comment> \<open>The nearest integer; of two equally near, the even one.\<close>
  "round_half_even y = nearest y \<lfloor>y\<rfloor>"

definition overflow :: "rat \<Rightarrow> rat \<Rightarrow> number" where
  "overflow x y = (if scale 2 1024 \<le> y then NonFinite else Finite (sgn x * y))"

definition round_at :: "int \<Rightarrow> rat \<Rightarrow> number" where
  \<comment> \<open>Rounding of \<open>x\<close> to a multiple of \<open>2 ^ (e - 52)\<close>, the spacing of doubles with
      binary exponent \<open>e\<close>.\<close>
  "round_at e x =
     overflow x (of_int (round_half_even (\<bar>x\<bar> / scale 2 (e - 52))) * scale 2 (e - 52))"

definition to_double :: "rat \<Rightarrow> number" where
  \<comment> \<open>The double nearest to \<open>x\<close> (round to nearest, ties to even): 53 significant bits,
      exponents from \<open>-1022\<close> (below it the spacing stays \<open>2 ^ -1074\<close>), \<open>Infinity\<close>
      from \<open>2 ^ 1024\<close> on. This is also how \<open>JSON.parse\<close> reads a decimal.\<close>
  "to_double x = (if x = 0 then Finite 0 else round_at (max (floorlog 2 \<bar>x\<bar>) (- 1022)) x)"

fun js_times :: "number \<Rightarrow> number \<Rightarrow> number" where
  \<comment> \<open>\<open>a * b\<close>: the exact product, rounded.\<close>
  "js_times (Finite a) (Finite b) = to_double (a * b)"
| "js_times _ _ = NonFinite"

text \<open>
  \<open>JSON.stringify\<close> writes a finite number \<open>d\<close> as \<open>Number::toString\<close> does: the
  decimal \<open>s * 10 ^ (n - k)\<close> with the fewest digits \<open>k\<close> that reads back as \<open>d\<close>, and
  among those with \<open>k\<close> digits the one nearest to \<open>d\<close>. The database reads that decimal
  exactly, so \<open>Number_toString d\<close> is the \<open>numeric\<close> value stored for \<open>d\<close>. For a
  positive \<open>d\<close> with \<open>10 ^ (n - 1) \<le> d < 10 ^ n\<close>, the decimals with \<open>k\<close> digits next
  to \<open>d\<close> are the two multiples of \<open>u = 10 ^ (n - k)\<close> around it; 17 digits always
  suffice for a double.
\<close>

definition nearer :: "rat \<Rightarrow> rat \<Rightarrow> rat \<Rightarrow> bool \<Rightarrow> rat" where
  "nearer d clo chi lo_even =
     (if d - clo < chi - d then clo else if chi - d < d - clo then chi
      else if lo_even then clo else chi)"

definition pick :: "rat \<Rightarrow> rat \<Rightarrow> rat \<Rightarrow> bool \<Rightarrow> rat option" where
  \<comment> \<open>Of the multiples \<open>clo \<le> d \<le> chi\<close>, one that reads back as \<open>d\<close>.\<close>
  "pick d clo chi lo_even =
     (if to_double clo = Finite d
      then (if to_double chi = Finite d then Some (nearer d clo chi lo_even) else Some clo)
      else if to_double chi = Finite d then Some chi else None)"

definition between :: "rat \<Rightarrow> rat \<Rightarrow> int \<Rightarrow> rat option" where
  "between d u lo =
     pick d (of_int lo * u) (if of_int lo * u = d then d else of_int (lo + 1) * u) (even lo)"

definition candidate :: "rat \<Rightarrow> rat \<Rightarrow> rat option" where
  "candidate d u = between d u \<lfloor>d / u\<rfloor>"

fun shortest_decimal :: "nat \<Rightarrow> nat \<Rightarrow> int \<Rightarrow> rat \<Rightarrow> rat" where
  \<comment> \<open>The search from \<open>k\<close> digits upwards, for as many steps as the first argument
      says; a \<open>d\<close> that is no double and reads back from no decimal is written in full.\<close>
  "shortest_decimal 0 k n d = d"
| "shortest_decimal (Suc fuel) k n d =
     (case candidate d (scale 10 (n - int k)) of
        Some c \<Rightarrow> c
      | None \<Rightarrow> shortest_decimal fuel (Suc k) n d)"

definition Number_toString :: "rat \<Rightarrow> rat" where
  "Number_toString d =
     (if d = 0 then 0
      else sgn d * shortest_decimal 17 1 (floorlog 10 \<bar>d\<bar> + 1) \<bar>d\<bar>)"

fun json_number :: "number \<Rightarrow> numeric field" where
  "json_number (Finite a) = Val (Number_toString a)"
| "json_number NonFinite = Null"

definition json_optional :: "'a option \<Rightarrow> 'a field" where
  \<comment> \<open>A property whose value is \<open>undefined\<close> is left out of the request body.\<close>
  "json_optional v = (case v of None \<Rightarrow> Absent | Some x \<Rightarrow> Val x)"

definition or_null :: "string \<Rightarrow> string field" where
  \<comment> \<open>\<open>s || null\<close>: the empty string is falsy.\<close>
  "or_null s = (if s = [] then Null else Val s)"

text \<open>
  \<open>String.prototype.toLowerCase\<close> is a parameter of the functions that call it. It maps
  a text by the Unicode case conversion, which depends on the neighbours of a letter (a
  capital sigma becomes a final sigma at the end of a word) and may change the length of
  the text. On ASCII text it maps \<open>A\<close>..\<open>Z\<close> to \<open>a\<close>..\<open>z\<close>, character by character,
  and leaves the other characters.
\<close>

definition is_ascii :: "char \<Rightarrow> bool" where
  "is_ascii c = (of_char c < (128::nat))"

definition is_upper :: "char \<Rightarrow> bool" where
  "is_upper c = ((65::nat) \<le> of_char c \<and> of_char c \<le> (90::nat))"

definition ascii_lower :: "char \<Rightarrow> char" where
  "ascii_lower c = (if is_upper c then char_of (of_char c + (32::nat)) else c)"

fun str_includes :: "string \<Rightarrow> string \<Rightarrow> bool" where
  \<comment> \<open>\<open>s.includes(q)\<close>: \<open>q\<close> occurs in \<open>s\<close> at some position.\<close>
  "str_includes [] q = (q = [])"
| "str_includes (c # s) q = (prefix q (c # s) \<or> str_includes s q)"

subsection \<open>The interfaces of \<^verbatim>\<open>lib/supabase\<close>\<close>

datatype UserType = farmer | retailer

datatype OrderStatus = pending | accepted | rejected | completed

fun status_text :: "OrderStatus \<Rightarrow> string" where
  "status_text pending = ''pending''"
| "status_text accepted = ''accepted''"
| "status_text rejected = ''rejected''"
| "status_text completed = ''completed''"

datatype PaymentMethod = online | cash_on_delivery

record Profile =
  U_id :: string
  U_user_type :: UserType
  U_full_name :: string
  U_phone :: "string option"
  U_location :: "string option"
  U_latitude :: "number option"
  U_longitude :: "number option"
  U_bio :: "string option"
  U_avatar_url :: "string option"
  U_created_at :: string
  U_updated_at :: string

record Product =
  P_id :: string
  P_farmer_id :: string
  P_name :: string
  P_description :: "string option"
  P_category :: string
  P_price :: number
  P_unit :: string
  P_quantity_available :: number
  P_image_url :: "string option"
  P_location :: "string option"
  P_is_available :: bool
  P_created_at :: string
  P_updated_at :: string

record Order =
  O_id :: string
  O_product_id :: string
  O_retailer_id :: string
  O_farmer_id :: string
  O_quantity :: number
  O_total_price :: number
  O_status :: OrderStatus
  O_payment_method :: PaymentMethod
  O_delivery_address :: string
  O_notes :: "string option"
  O_created_at :: string
  O_updated_at :: string

subsection \<open>ProductDetailModal: \<^verbatim>\<open>handlePlaceOrder\<close>\<close>

record orderData =
  D_quantity :: string
  D_payment_method :: string
  D_delivery_address :: string
  D_notes :: string

definition handlePlaceOrder_body ::
  "(string \<Rightarrow> number) \<Rightarrow> uuid option \<Rightarrow> Product \<Rightarrow> orderData \<Rightarrow> orders_body" where
  \<comment> \<open>The object passed to \<open>insert\<close>; \<open>user\<close> is the value of \<open>user?.id\<close>.\<close>
  "handlePlaceOrder_body parseFloat user product d =
     (let quantity = parseFloat (D_quantity d);
          totalPrice = js_times quantity (P_price product)
      in \<lparr> b_od_id = Absent,
           b_od_product_id = Val (P_id product),
           b_od_retailer_id = json_optional user,
           b_od_farmer_id = Val (P_farmer_id product),
           b_od_quantity = json_number quantity,
           b_od_total_price = json_number totalPrice,
           b_od_status = Val ''pending'',
           b_od_payment_method = Val (D_payment_method d),
           b_od_delivery_address = Val (D_delivery_address d),
           b_od_notes = or_null (D_notes d),
           b_od_created_at = Absent,
           b_od_updated_at = Absent \<rparr>)"

definition handlePlaceOrder ::
  "(string \<Rightarrow> number) \<Rightarrow> database \<Rightarrow> uuid option \<Rightarrow> uuid \<Rightarrow> timestamptz \<Rightarrow> Product \<Rightarrow> orderData
     \<Rightarrow> db_error + database" where
  \<comment> \<open>The request is made in the session of \<open>user\<close>. \<open>Inl\<close>: the insert returned an
      error and the handler reports failure; \<open>Inr\<close>: the database after the insert.\<close>
  "handlePlaceOrder parseFloat db user gen now product d =
     insert_orders db user gen now (handlePlaceOrder_body parseFloat user product d)"

subsection \<open>Orders: \<^verbatim>\<open>handleUpdateStatus\<close> and the status buttons\<close>

definition handleUpdateStatus_body :: "timestamptz \<Rightarrow> OrderStatus \<Rightarrow> orders_body" where
  \<comment> \<open>\<open>{ status, updated_at: new Date().toISOString() }\<close>.\<close>
  "handleUpdateStatus_body now status =
     \<lparr> b_od_id = Absent, b_od_product_id = Absent, b_od_retailer_id = Absent,
       b_od_farmer_id = Absent, b_od_quantity = Absent, b_od_total_price = Absent,
       b_od_status = Val (status_text status),
       b_od_payment_method = Absent, b_od_delivery_address = Absent, b_od_notes = Absent,
       b_od_created_at = Absent,
       b_od_updated_at = Val now \<rparr>"

definition handleUpdateStatus ::
  "database \<Rightarrow> uuid option \<Rightarrow> timestamptz \<Rightarrow> Order list \<Rightarrow> string \<Rightarrow> OrderStatus
     \<Rightarrow> db_error + database \<times> Order list" where
  \<comment> \<open>\<open>ords\<close> is the component's \<open>orders\<close> state; it is rewritten only after the
      update has returned without error.\<close>
  "handleUpdateStatus db user now ords orderId status =
     (case update_orders db user (\<lambda>r. sql_is_true (sql_eq (od_id r) (Some orderId)))
             (handleUpdateStatus_body now status) of
        Inl e \<Rightarrow> Inl e
      | Inr db' \<Rightarrow>
          Inr (db', map (\<lambda>x. if O_id x = orderId then x\<lparr>O_status := status\<rparr> else x) ords))"

definition status_buttons :: "Profile option \<Rightarrow> Order \<Rightarrow> OrderStatus list" where
  \<comment> \<open>The buttons rendered on an order's card, each given by the status its
      \<open>onClick\<close> passes to \<open>handleUpdateStatus\<close>: Accept and Reject, then Complete.\<close>
  "status_buttons profile order =
     (if map_option U_user_type profile = Some farmer \<and> O_status order = pending
      then [accepted, rejected] else []) @
     (if map_option U_user_type profile = Some farmer \<and> O_status order = accepted
      then [completed] else [])"

subsection \<open>AddProductModal: \<^verbatim>\<open>handleSubmit\<close>\<close>

record formData =
  F_name :: string
  F_description :: string
  F_category :: string
  F_price :: string
  F_unit :: string
  F_quantity_available :: string
  F_image_url :: string
  F_location :: string

definition productData :: "(string \<Rightarrow> number) \<Rightarrow> formData \<Rightarrow> products_body" where
  "productData parseFloat f =
     \<lparr> b_pr_id = Absent,
       b_pr_farmer_id = Absent,
       b_pr_name = Val (F_name f),
       b_pr_description = Val (F_description f),
       b_pr_category = Val (F_category f),
       b_pr_price = json_number (parseFloat (F_price f)),
       b_pr_unit = Val (F_unit f),
       b_pr_quantity_available = json_number (parseFloat (F_quantity_available f)),
       b_pr_image_url = or_null (F_image_url f),
       b_pr_location = or_null (F_location f),
       b_pr_is_available = Absent,
       b_pr_created_at = Absent,
       b_pr_updated_at = Absent \<rparr>"

definition handleSubmit ::
  "(string \<Rightarrow> number) \<Rightarrow> database \<Rightarrow> uuid option \<Rightarrow> uuid \<Rightarrow> timestamptz \<Rightarrow> Product option \<Rightarrow> formData
     \<Rightarrow> db_error + database" where
  \<comment> \<open>With a product the modal edits it (\<open>update ... eq('id', product.id)\<close>); without one
      it inserts \<open>{...productData, farmer_id: user?.id}\<close>.\<close>
  "handleSubmit parseFloat db user gen now product f =
     (case product of
        Some p \<Rightarrow>
          update_products db user (\<lambda>r. sql_is_true (sql_eq (pr_id r) (Some (P_id p))))
            (productData parseFloat f)
      | None \<Rightarrow>
          insert_products db user gen now
            ((productData parseFloat f)\<lparr>b_pr_farmer_id := json_optional user\<rparr>))"

subsection \<open>Marketplace: \<^verbatim>\<open>filterProducts\<close>\<close>

definition optional_includes :: "(string \<Rightarrow> string) \<Rightarrow> string option \<Rightarrow> string \<Rightarrow> bool" where
  \<comment> \<open>\<open>t?.toLowerCase().includes(query)\<close>, read as a condition: an absent text gives
      \<open>undefined\<close>, which is falsy.\<close>
  "optional_includes toLowerCase t query =
     (case t of None \<Rightarrow> False | Some x \<Rightarrow> str_includes (toLowerCase x) query)"

definition filterProducts ::
  "(string \<Rightarrow> string) \<Rightarrow> Product list \<Rightarrow> string \<Rightarrow> string \<Rightarrow> Product list" where
  \<comment> \<open>The list handed to \<open>setFilteredProducts\<close>.\<close>
  "filterProducts toLowerCase prods searchQuery selectedCategory =
     (let filtered = prods;
          filtered = (if selectedCategory \<noteq> ''All''
                      then filter (\<lambda>p. P_category p = selectedCategory) filtered
                      else filtered);
          filtered = (if searchQuery \<noteq> []
                      then (let query = toLowerCase searchQuery
                            in filter (\<lambda>p. str_includes (toLowerCase (P_name p)) query \<or>
                                            optional_includes toLowerCase (P_description p) query \<or>
                                            optional_includes toLowerCase (P_location p) query)
                                 filtered)
                      else filtered)
      in filtered)"

section \<open>Case-insensitive containment, as the specification words it\<close>

definition same_letter :: "char \<Rightarrow> char \<Rightarrow> bool" where
  \<comment> \<open>Two characters that differ at most in case: they are equal, or one is a capital
      letter \<open>A\<close>..\<open>Z\<close> and the other its small letter, 32 places further on.\<close>
  "same_letter a b =
     (a = b \<or>
      (is_upper a \<and> (of_char b :: nat) = of_char a + 32) \<or>
      (is_upper b \<and> (of_char a :: nat) = of_char b + 32))"

definition ci_contains :: "string \<Rightarrow> string \<Rightarrow> bool" where
  \<comment> \<open>\<open>q\<close> is a case-insensitive substring of \<open>t\<close>: at some position of \<open>t\<close> the next
      \<open>length q\<close> characters are those of \<open>q\<close>, up to case.\<close>
  "ci_contains q t =
     list_ex (\<lambda>i. list_all2 same_letter (take (length q) (drop i t)) q) [0..<Suc (length t)]"

definition ci_contains_optional :: "string \<Rightarrow> string option \<Rightarrow> bool" where
  "ci_contains_optional q t = (case t of None \<Rightarrow> False | Some x \<Rightarrow> ci_contains q x)"

definition ascii_Product :: "Product \<Rightarrow> bool" where
  \<comment> \<open>The three texts that the search reads are ASCII.\<close>
  "ascii_Product p =
     (list_all is_ascii (P_name p) \<and>
      (case P_description p of None \<Rightarrow> True | Some t \<Rightarrow> list_all is_ascii t) \<and>
      (case P_location p of None \<Rightarrow> True | Some t \<Rightarrow> list_all is_ascii t))"

section \<open>Example data\<close>

definition ex_now :: timestamptz where
  "ex_now = ''2025-10-16T16:01:38Z''"

definition ex_profile :: "uuid \<Rightarrow> string \<Rightarrow> profiles_row" where
  "ex_profile i t =
     \<lparr> pf_id = Some i, pf_user_type = Some t, pf_full_name = Some i, pf_phone = None,
       pf_location = None, pf_latitude = None, pf_longitude = None, pf_bio = None,
       pf_avatar_url = None, pf_created_at = Some ex_now, pf_updated_at = Some ex_now \<rparr>"

definition ex_tomatoes :: products_row where
  \<comment> \<open>Farmer \<open>F\<close>'s listing of the specification's scenario.\<close>
  "ex_tomatoes =
     \<lparr> pr_id = Some ''p1'', pr_farmer_id = Some ''F'', pr_name = Some ''Tomatoes'',
       pr_description = None, pr_category = Some ''Vegetables'', pr_price = Some 20,
       pr_unit = Some ''kg'', pr_quantity_available = Some 100, pr_image_url = None,
       pr_location = Some ''Salem'', pr_is_available = Some True,
       pr_created_at = Some ex_now, pr_updated_at = Some ex_now \<rparr>"

definition ex_db :: database where
  \<comment> \<open>Farmers \<open>F\<close> and \<open>G\<close>, retailers \<open>R\<close> and \<open>T\<close>; \<open>F\<close> has an available and a
      withdrawn listing, \<open>G\<close> a withdrawn one and one whose flag is \<open>NULL\<close>.\<close>
  "ex_db =
     \<lparr> profiles = [ex_profile ''F'' ''farmer'', ex_profile ''G'' ''farmer'',
                   ex_profile ''R'' ''retailer'', ex_profile ''T'' ''retailer''],
       products = [ex_tomatoes,
                   ex_tomatoes\<lparr>pr_id := Some ''p2'', pr_is_available := Some False\<rparr>,
                   ex_tomatoes\<lparr>pr_id := Some ''p3'', pr_farmer_id := Some ''G'',
                                pr_is_available := Some False\<rparr>,
                   ex_tomatoes\<lparr>pr_id := Some ''p4'', pr_farmer_id := Some ''G'',
                                pr_is_available := None\<rparr>],
       orders = [],
       messages = [] \<rparr>"

definition ex_db_cheap :: database where
  \<comment> \<open>\<open>ex_db\<close> with the one listing \<open>p1\<close>, priced at one tenth.\<close>
  "ex_db_cheap = ex_db\<lparr>products := [ex_tomatoes\<lparr>pr_price := Some (1 / 10)\<rparr>]\<rparr>"

definition ex_db_dear :: database where
  \<comment> \<open>\<open>ex_db\<close> with the one listing \<open>p1\<close>, after its farmer has raised the price to 30.\<close>
  "ex_db_dear = ex_db\<lparr>products := [ex_tomatoes\<lparr>pr_price := Some 30\<rparr>]\<rparr>"

definition ex_Product :: Product where
  \<comment> \<open>The listing \<open>ex_tomatoes\<close> as the client holds it.\<close>
  "ex_Product =
     \<lparr> P_id = ''p1'', P_farmer_id = ''F'', P_name = ''Tomatoes'', P_description = None,
       P_category = ''Vegetables'', P_price = Finite 20, P_unit = ''kg'',
       P_quantity_available = Finite 100, P_image_url = None, P_location = Some ''Salem'',
       P_is_available = True, P_created_at = ex_now, P_updated_at = ex_now \<rparr>"

definition ex_catalog :: "Product list" where
  \<comment> \<open>Three listings as the marketplace holds them.\<close>
  "ex_catalog =
     [ex_Product,
      ex_Product\<lparr>P_id := ''p7'', P_name := ''Mangoes'', P_category := ''Fruits'',
                 P_description := Some ''Sweet ALPHONSO'', P_location := None\<rparr>,
      ex_Product\<lparr>P_id := ''p8'', P_name := ''Rice'', P_category := ''Grains'',
                 P_description := Some [], P_location := Some ''Tomato Lane''\<rparr>]"

definition ex_OSA :: string where
  \<comment> \<open>The Greek capitals omicron, sigma, alpha.\<close>
  "ex_OSA = [CHR 0xCE, CHR 0x9F, CHR 0xCE, CHR 0xA3, CHR 0xCE, CHR 0x91]"

definition ex_OS :: string where
  \<comment> \<open>The Greek capitals omicron, sigma: the first two letters of \<open>ex_OSA\<close>.\<close>
  "ex_OS = [CHR 0xCE, CHR 0x9F, CHR 0xCE, CHR 0xA3]"

definition ex_toLowerCase :: "string \<Rightarrow> string" where
  \<comment> \<open>\<open>toLowerCase\<close> on ASCII text and on the two Greek texts of the example: small
      omicron, sigma, alpha, and small omicron with the final sigma.\<close>
  "ex_toLowerCase s =
     (if s = ex_OSA then [CHR 0xCE, CHR 0xBF, CHR 0xCF, CHR 0x83, CHR 0xCE, CHR 0xB1]
      else if s = ex_OS then [CHR 0xCE, CHR 0xBF, CHR 0xCF, CHR 0x82]
      else map ascii_lower s)"

definition ex_parseFloat :: "string \<Rightarrow> number" where
  \<comment> \<open>\<open>parseFloat\<close> on the few strings the examples use.\<close>
  "ex_parseFloat s =
     (if s = ''5'' then Finite 5 else if s = ''3'' then Finite 3
      else if s = ''25'' then Finite 25 else if s = ''80'' then Finite 80 else NonFinite)"

definition ex_orderData :: orderData where
  "ex_orderData =
     \<lparr> D_quantity = ''5'', D_payment_method = ''cash_on_delivery'',
       D_delivery_address = ''12 Market Road'', D_notes = [] \<rparr>"

definition ex_order :: orders_row where
  \<comment> \<open>The order that \<open>R\<close> places with \<open>ex_orderData\<close> on \<open>ex_Product\<close>.\<close>
  "ex_order =
     \<lparr> od_id = Some ''o1'', od_product_id = Some ''p1'', od_retailer_id = Some ''R'',
       od_farmer_id = Some ''F'', od_quantity = Some 5, od_total_price = Some 100,
       od_status = Some ''pending'', od_payment_method = Some ''cash_on_delivery'',
       od_delivery_address = Some ''12 Market Road'', od_notes = None,
       od_created_at = Some ex_now, od_updated_at = Some ex_now \<rparr>"

definition ex_Order :: Order where
  \<comment> \<open>\<open>ex_order\<close> as the client holds it.\<close>
  "ex_Order =
     \<lparr> O_id = ''o1'', O_product_id = ''p1'', O_retailer_id = ''R'', O_farmer_id = ''F'',
       O_quantity = Finite 5, O_total_price = Finite 100, O_status = pending,
       O_payment_method = cash_on_delivery, O_delivery_address = ''12 Market Road'',
       O_notes = None, O_created_at = ex_now, O_updated_at = ex_now \<rparr>"

definition ex_Profile :: Profile where
  \<comment> \<open>Farmer \<open>F\<close>'s profile as the client holds it.\<close>
  "ex_Profile =
     \<lparr> U_id = ''F'', U_user_type = farmer, U_full_name = ''F'', U_phone = None,
       U_location = None, U_latitude = None, U_longitude = None, U_bio = None,
       U_avatar_url = None, U_created_at = ex_now, U_updated_at = ex_now \<rparr>"

definition ex_later :: timestamptz where
  "ex_later = ''2025-10-17T09:30:00Z''"

definition ex_orders_body :: orders_body where
  \<comment> \<open>A request body written by hand, as any holder of a session can send it.\<close>
  "ex_orders_body =
     \<lparr> b_od_id = Absent, b_od_product_id = Val ''p1'', b_od_retailer_id = Val ''R'',
       b_od_farmer_id = Val ''F'', b_od_quantity = Val 5, b_od_total_price = Val 100,
       b_od_status = Absent, b_od_payment_method = Val ''online'',
       b_od_delivery_address = Val ''12 Market Road'', b_od_notes = Absent,
       b_od_created_at = Absent, b_od_updated_at = Absent \<rparr>"

definition ex_reassign_body :: orders_body where
  \<comment> \<open>An update of \<open>farmer_id\<close> alone.\<close>
  "ex_reassign_body =
     \<lparr> b_od_id = Absent, b_od_product_id = Absent, b_od_retailer_id = Absent,
       b_od_farmer_id = Val ''G'', b_od_quantity = Absent, b_od_total_price = Absent,
       b_od_status = Absent, b_od_payment_method = Absent, b_od_delivery_address = Absent,
       b_od_notes = Absent, b_od_created_at = Absent, b_od_updated_at = Absent \<rparr>"

definition ex_products_body :: products_body where
  "ex_products_body =
     \<lparr> b_pr_id = Absent, b_pr_farmer_id = Val ''F'', b_pr_name = Val ''Onions'',
       b_pr_description = Absent, b_pr_category = Val ''Vegetables'', b_pr_price = Val 30,
       b_pr_unit = Absent, b_pr_quantity_available = Val 50, b_pr_image_url = Absent,
       b_pr_location = Absent, b_pr_is_available = Absent, b_pr_created_at = Absent,
       b_pr_updated_at = Absent \<rparr>"

definition ex_messages_body :: messages_body where
  "ex_messages_body =
     \<lparr> b_ms_id = Absent, b_ms_sender_id = Val ''R'', b_ms_receiver_id = Val ''F'',
       b_ms_product_id = Val ''p1'', b_ms_message = Val ''Are the tomatoes ripe?'',
       b_ms_is_read = Absent, b_ms_created_at = Absent \<rparr>"

definition ex_formData :: formData where
  "ex_formData =
     \<lparr> F_name = ''Cherry tomatoes'', F_description = [], F_category = ''Vegetables'',
       F_price = ''25'', F_unit = ''kg'', F_quantity_available = ''80'', F_image_url = [],
       F_location = ''Salem'' \<rparr>"


section \<open>Properties\<close>

subsection \<open>Reading conditions\<close>

lemma sql_or_true: "sql_is_true (sql_or a b) \<longleftrightarrow> a = Some True \<or> b = Some True"
  by (cases "(a, b)" rule: sql_or.cases) (auto simp: sql_is_true_def)

lemma sql_and_true: "sql_is_true (sql_and a b) \<longleftrightarrow> a = Some True \<and> b = Some True"
  by (cases "(a, b)" rule: sql_and.cases) (auto simp: sql_is_true_def)

lemma sql_eq_true: "sql_eq a (Some v) = Some True \<longleftrightarrow> a = Some v"
  by (auto simp: sql_eq_def split: option.splits)

lemma has_profile_iff:
  "has_profile profs (Some uid) t \<longleftrightarrow>
     (\<exists>p \<in> set profs. pf_id p = Some uid \<and> pf_user_type p = Some t)"
  by (simp add: has_profile_def list_ex_iff sql_and_true sql_eq_true)

lemma on_insert_Some: "on_insert None f = Some v \<longleftrightarrow> f = Val v"
  by (cases f) auto

lemma sql_eq_simps:
  "sql_eq (Some x) (Some y) = Some (x = y)" "sql_eq None b = None" "sql_eq a None = None"
  by (simp_all add: sql_eq_def split: option.splits)

lemma sql_gt_simps:
  "sql_gt (Some x) (Some y) = Some (x > y)" "sql_gt None b = None" "sql_gt a None = None"
  by (simp_all add: sql_gt_def split: option.splits)

lemma sql_ge_simps:
  "sql_ge (Some x) (Some y) = Some (x \<ge> y)" "sql_ge None b = None" "sql_ge a None = None"
  by (simp_all add: sql_ge_def split: option.splits)

lemmas sql_eval =
  sql_eq_simps sql_gt_simps sql_ge_simps sql_in_def sql_is_true_def sql_check_ok_def
  has_profile_def references_def

text \<open>The definitions that a run on concrete data unfolds.\<close>

lemmas orders_eval =
  insert_orders_def update_orders_def orders_row_error_def orders_keys_error_def
  orders_insert_policy_def orders_update_using_def orders_update_check_def
  orders_not_null_def orders_check_def orders_new_row_def orders_set_def Let_def

lemmas products_eval =
  insert_products_def update_products_def products_row_error_def products_keys_error_def
  products_insert_policy_def products_update_using_def products_update_check_def
  products_not_null_def products_check_def products_new_row_def products_set_def Let_def

lemmas messages_eval =
  insert_messages_def messages_row_error_def messages_keys_error_def
  messages_insert_policy_def messages_not_null_def messages_new_row_def Let_def

lemmas ex_data =
  ex_db_def ex_profile_def ex_tomatoes_def ex_order_def ex_orders_body_def
  ex_products_body_def ex_messages_body_def ex_Product_def ex_Order_def ex_orderData_def
  ex_formData_def ex_parseFloat_def ex_Profile_def ex_catalog_def ex_reassign_body_def
  ex_db_cheap_def ex_db_dear_def

subsection \<open>What an update may touch\<close>

lemma products_update_using_visible:
  "products_update_using auth r \<Longrightarrow> products_select_policy auth r"
  by (cases auth)
     (simp_all add: products_update_using_def products_select_policy_def sql_or_true
        sql_is_true_def [of "sql_eq a b" for a b])

lemma orders_update_using_visible:
  "orders_update_using auth r \<longleftrightarrow> orders_select_policy auth r"
  by (simp add: orders_update_using_def orders_select_policy_def)

text \<open>
  The owner of a listing never changes: an update that the policy admits leaves
  \<open>farmer_id\<close> as it was, so a copy of a listing that a client holds stays right about
  the listing's farmer.
\<close>

lemma listing_farmer_id_immutable:
  assumes "products_update_using auth r" and "products_update_check auth (products_set b r)"
  shows "pr_farmer_id (products_set b r) = pr_farmer_id r"
proof (cases auth)
  case None
  with assms show ?thesis by (simp add: products_update_using_def)
next
  case (Some uid)
  with assms have "pr_farmer_id r = Some uid" "pr_farmer_id (products_set b r) = Some uid"
    by (simp_all add: products_update_using_def products_update_check_def sql_is_true_def
          sql_eq_true)
  then show ?thesis by simp
qed

subsection \<open>Outcome of an insert\<close>

lemma insert_orders_Inr:
  "insert_orders db auth gen now b = Inr db' \<longleftrightarrow>
     orders_insert_policy (profiles db) auth (orders_new_row gen now b) \<and>
     orders_not_null (orders_new_row gen now b) \<and>
     orders_check (orders_new_row gen now b) \<and>
     orders_keys_error db (orders db @ [orders_new_row gen now b]) = None \<and>
     db' = db\<lparr>orders := orders db @ [orders_new_row gen now b]\<rparr>"
  by (auto simp: insert_orders_def orders_row_error_def Let_def split: option.splits if_splits)

lemma insert_orders_denied:
  "\<not> orders_insert_policy (profiles db) auth (orders_new_row gen now b) \<Longrightarrow>
   insert_orders db auth gen now b = Inl PolicyViolation"
  by (simp add: insert_orders_def orders_row_error_def Let_def)

lemma orders_insert_policy_iff:
  "orders_insert_policy profs auth row \<longleftrightarrow>
     (\<exists>uid. auth = Some uid \<and> od_retailer_id row = Some uid \<and>
        (\<exists>p \<in> set profs. pf_id p = Some uid \<and> pf_user_type p = Some ''retailer''))"
  by (cases auth) (simp_all add: orders_insert_policy_def sql_and_true sql_eq_true has_profile_iff)

lemma insert_products_denied:
  "\<not> products_insert_policy (profiles db) auth (products_new_row gen now b) \<Longrightarrow>
   insert_products db auth gen now b = Inl PolicyViolation"
  by (simp add: insert_products_def products_row_error_def Let_def)

lemma products_insert_policy_iff:
  "products_insert_policy profs auth row \<longleftrightarrow>
     (\<exists>uid. auth = Some uid \<and> pr_farmer_id row = Some uid \<and>
        (\<exists>p \<in> set profs. pf_id p = Some uid \<and> pf_user_type p = Some ''farmer''))"
  by (cases auth) (simp_all add: products_insert_policy_def sql_and_true sql_eq_true has_profile_iff)

lemma messages_insert_policy_iff:
  "messages_insert_policy auth row \<longleftrightarrow> (\<exists>uid. auth = Some uid \<and> ms_sender_id row = Some uid)"
  by (cases auth) (simp_all add: messages_insert_policy_def sql_is_true_def sql_eq_true)

lemma insert_messages_denied:
  "\<not> messages_insert_policy auth (messages_new_row gen now b) \<Longrightarrow>
   insert_messages db auth gen now b = Inl PolicyViolation"
  by (simp add: insert_messages_def messages_row_error_def Let_def)

lemma insert_messages_Inr:
  "insert_messages db auth gen now b = Inr db' \<longleftrightarrow>
     messages_insert_policy auth (messages_new_row gen now b) \<and>
     messages_not_null (messages_new_row gen now b) \<and>
     messages_keys_error db (messages db @ [messages_new_row gen now b]) = None \<and>
     db' = db\<lparr>messages := messages db @ [messages_new_row gen now b]\<rparr>"
  by (auto simp: insert_messages_def messages_row_error_def Let_def split: option.splits if_splits)

text \<open>The example bodies are accepted when their owner sends them.\<close>

lemma insert_products_Inr:
  "insert_products db auth gen now b = Inr db' \<longleftrightarrow>
     products_insert_policy (profiles db) auth (products_new_row gen now b) \<and>
     products_not_null (products_new_row gen now b) \<and>
     products_check (products_new_row gen now b) \<and>
     products_keys_error db (products db @ [products_new_row gen now b]) = None \<and>
     db' = db\<lparr>products := products db @ [products_new_row gen now b]\<rparr>"
  by (auto simp: insert_products_def products_row_error_def Let_def split: option.splits if_splits)

lemma insert_orders_PolicyViolation:
  "insert_orders db auth gen now b = Inl PolicyViolation \<longleftrightarrow>
     \<not> orders_insert_policy (profiles db) auth (orders_new_row gen now b)"
  by (auto simp: insert_orders_def orders_row_error_def orders_keys_error_def Let_def
        split: option.splits if_splits)

lemma insert_products_PolicyViolation:
  "insert_products db auth gen now b = Inl PolicyViolation \<longleftrightarrow>
     \<not> products_insert_policy (profiles db) auth (products_new_row gen now b)"
  by (auto simp: insert_products_def products_row_error_def products_keys_error_def Let_def
        split: option.splits if_splits)

lemma ex_insert_orders:
  "insert_orders ex_db (Some ''R'') ''o1'' ex_now ex_orders_body =
     Inr (ex_db\<lparr>orders := [ex_order\<lparr>od_payment_method := Some ''online''\<rparr>]\<rparr>)"
  by (simp add: orders_eval sql_eval ex_data)

lemma ex_insert_products:
  "insert_products ex_db (Some ''F'') ''p5'' ex_now ex_products_body =
     Inr (ex_db\<lparr>products := products ex_db @ [products_new_row ''p5'' ex_now ex_products_body]\<rparr>)"
  by (simp add: products_eval sql_eval ex_data sql_and_true)

lemma ex_insert_messages:
  "insert_messages ex_db (Some ''R'') ''m1'' ex_now ex_messages_body =
     Inr (ex_db\<lparr>messages := [messages_new_row ''m1'' ex_now ex_messages_body]\<rparr>)"
  by (simp add: messages_eval sql_eval ex_data)

subsection \<open>Numbers of the examples\<close>

lemma floor_numeral_div: "\<lfloor>numeral a / numeral b :: rat\<rfloor> = numeral a div numeral b"
  by (metis floor_divide_of_int_eq of_int_numeral)

lemma shortest_decimal_numeral:
  "shortest_decimal (numeral f) k n d =
     (case candidate d (scale 10 (n - int k)) of
        Some c \<Rightarrow> c
      | None \<Rightarrow> shortest_decimal (pred_numeral f) (Suc k) n d)"
  by (simp add: numeral_eq_Suc)

lemmas num_eval =
  to_double_def round_at_def overflow_def floorlog_def below_def scale_def round_half_even_def
  nearest_def floor_numeral_div Number_toString_def shortest_decimal_numeral candidate_def
  between_def pick_def nearer_def

lemma ex_whole_numbers:
  "Number_toString 3 = 3" "Number_toString 5 = 5" "Number_toString 25 = 25"
  "Number_toString 80 = 80" "Number_toString 100 = 100" "to_double 100 = Finite 100"
  by (simp_all add: num_eval)

text \<open>
  The double nearest to one tenth, three times that double as the client computes it,
  and what is written for the product: \<open>0.30000000000000004\<close>.
\<close>

lemma ex_tenth: "to_double (1 / 10) = Finite (3602879701896397 / 36028797018963968)"
  by (simp add: num_eval)

lemma ex_three_tenths:
  "to_double (10808639105689191 / 36028797018963968) =
     Finite (1351079888211149 / 4503599627370496)"
  by (simp add: num_eval)

lemma ex_three_tenths_written:
  "Number_toString (1351079888211149 / 4503599627370496) =
     30000000000000004 / 100000000000000000"
  by (simp add: num_eval)

subsection \<open>Visibility of listings\<close>

text \<open>
  C1. An authenticated principal \<open>P\<close> may read a listing \<open>L\<close> exactly when \<open>L\<close>'s
  availability flag is true or \<open>P\<close> is \<open>L\<close>'s owning farmer. A read returns the rows of
  the table that satisfy this condition, in table order; the other rows are left out and
  the read is not an error. (A flag that is \<open>NULL\<close> is not true: such a row is visible to
  its owner only.)
\<close>

theorem listing_read_iff_available_or_owner:
  "(products_select_policy (Some P) L \<longleftrightarrow>
      pr_is_available L = Some True \<or> pr_farmer_id L = Some P) \<and>
   select_products db (Some P) =
     filter (\<lambda>L. pr_is_available L = Some True \<or> pr_farmer_id L = Some P) (products db)"
  by (simp add: select_products_def products_select_policy_def sql_or_true sql_eq_true
        cong: filter_cong)

theorem listing_read_iff_available_or_owner_witness:
  "products_select_policy (Some ''R'') ex_tomatoes \<and>
   \<not> products_select_policy (Some ''R'') (ex_tomatoes\<lparr>pr_is_available := None\<rparr>) \<and>
   map pr_id (select_products ex_db (Some ''R'')) = [Some ''p1''] \<and>
   map pr_id (select_products ex_db (Some ''F'')) = [Some ''p1'', Some ''p2''] \<and>
   map pr_id (select_products ex_db (Some ''G'')) = [Some ''p1'', Some ''p3'', Some ''p4'']"
  using listing_read_iff_available_or_owner [of "''R''" ex_tomatoes ex_db]
    listing_read_iff_available_or_owner [of "''R''" "ex_tomatoes\<lparr>pr_is_available := None\<rparr>" ex_db]
    listing_read_iff_available_or_owner [of "''F''" ex_tomatoes ex_db]
    listing_read_iff_available_or_owner [of "''G''" ex_tomatoes ex_db]
  by (simp add: ex_db_def ex_tomatoes_def)


subsection \<open>Who may insert\<close>

text \<open>
  C3. An order insert is permitted exactly when the requester is authenticated, the row's
  \<open>retailer_id\<close> is the requester's id and the requester has a profile of type
  retailer. This holds of the policy and of the insert itself: the insert is refused with
  a policy violation exactly when the condition fails, and it succeeds exactly when the
  condition holds and the row meets the constraints of the table. In particular an insert
  whose \<open>retailer_id\<close> is not the requester's id fails.
\<close>

theorem order_insert_permitted_iff:
  "(orders_insert_policy (profiles db) auth row \<longleftrightarrow>
      (\<exists>uid. auth = Some uid \<and> od_retailer_id row = Some uid \<and>
         (\<exists>p \<in> set (profiles db). pf_id p = Some uid \<and> pf_user_type p = Some ''retailer''))) \<and>
   (insert_orders db auth gen now b = Inl PolicyViolation \<longleftrightarrow>
      \<not> (\<exists>uid. auth = Some uid \<and> b_od_retailer_id b = Val uid \<and>
         (\<exists>p \<in> set (profiles db). pf_id p = Some uid \<and> pf_user_type p = Some ''retailer''))) \<and>
   (insert_orders db auth gen now b = Inr db' \<longleftrightarrow>
      (\<exists>uid. auth = Some uid \<and> b_od_retailer_id b = Val uid \<and>
         (\<exists>p \<in> set (profiles db). pf_id p = Some uid \<and> pf_user_type p = Some ''retailer'')) \<and>
      orders_not_null (orders_new_row gen now b) \<and>
      orders_check (orders_new_row gen now b) \<and>
      orders_keys_error db (orders db @ [orders_new_row gen now b]) = None \<and>
      db' = db\<lparr>orders := orders db @ [orders_new_row gen now b]\<rparr>) \<and>
   (b_od_retailer_id b \<noteq> Val uid \<longrightarrow>
      insert_orders db (Some uid) gen now b = Inl PolicyViolation)"
proof -
  have row: "od_retailer_id (orders_new_row gen now b) = Some u \<longleftrightarrow> b_od_retailer_id b = Val u"
    for u
    by (simp add: orders_new_row_def on_insert_Some)
  have pol: "orders_insert_policy (profiles db) a (orders_new_row gen now b) \<longleftrightarrow>
      (\<exists>uid. a = Some uid \<and> b_od_retailer_id b = Val uid \<and>
         (\<exists>p \<in> set (profiles db). pf_id p = Some uid \<and> pf_user_type p = Some ''retailer''))"
    for a
    by (simp add: orders_insert_policy_iff row)
  have refused: "insert_orders db a gen now b = Inl PolicyViolation \<longleftrightarrow>
      \<not> (\<exists>uid. a = Some uid \<and> b_od_retailer_id b = Val uid \<and>
         (\<exists>p \<in> set (profiles db). pf_id p = Some uid \<and> pf_user_type p = Some ''retailer''))"
    for a
    by (simp only: insert_orders_PolicyViolation pol)
  have accepted: "insert_orders db auth gen now b = Inr db' \<longleftrightarrow>
      (\<exists>uid. auth = Some uid \<and> b_od_retailer_id b = Val uid \<and>
         (\<exists>p \<in> set (profiles db). pf_id p = Some uid \<and> pf_user_type p = Some ''retailer'')) \<and>
      orders_not_null (orders_new_row gen now b) \<and>
      orders_check (orders_new_row gen now b) \<and>
      orders_keys_error db (orders db @ [orders_new_row gen now b]) = None \<and>
      db' = db\<lparr>orders := orders db @ [orders_new_row gen now b]\<rparr>"
    by (simp only: insert_orders_Inr pol)
  have other: "b_od_retailer_id b \<noteq> Val uid \<longrightarrow>
      insert_orders db (Some uid) gen now b = Inl PolicyViolation"
    by (simp add: refused)
  from orders_insert_policy_iff [of "profiles db" auth row] refused [of auth] accepted other
  show ?thesis by (intro conjI)
qed

theorem order_insert_permitted_iff_witness:
  "orders_insert_policy (profiles ex_db) (Some ''R'') (orders_new_row ''o1'' ex_now ex_orders_body) \<and>
   \<not> orders_insert_policy (profiles ex_db) (Some ''F'')
       (orders_new_row ''o1'' ex_now (ex_orders_body\<lparr>b_od_retailer_id := Val ''F''\<rparr>)) \<and>
   insert_orders ex_db (Some ''T'') ''o1'' ex_now ex_orders_body = Inl PolicyViolation \<and>
   insert_orders ex_db (Some ''F'') ''o1'' ex_now (ex_orders_body\<lparr>b_od_retailer_id := Val ''F''\<rparr>)
     = Inl PolicyViolation \<and>
   insert_orders ex_db (Some ''R'') ''o1'' ex_now ex_orders_body =
     Inr (ex_db\<lparr>orders := [ex_order\<lparr>od_payment_method := Some ''online''\<rparr>]\<rparr>)"
  using order_insert_permitted_iff
          [of ex_db "Some ''R''" "orders_new_row ''o1'' ex_now ex_orders_body" "''o1''" ex_now
              ex_orders_body "ex_db\<lparr>orders := [ex_order\<lparr>od_payment_method := Some ''online''\<rparr>]\<rparr>"
              "''T''"]
        order_insert_permitted_iff
          [of ex_db "Some ''F''"
              "orders_new_row ''o1'' ex_now (ex_orders_body\<lparr>b_od_retailer_id := Val ''F''\<rparr>)"
              "''o1''" ex_now "ex_orders_body\<lparr>b_od_retailer_id := Val ''F''\<rparr>"]
        order_insert_permitted_iff
          [of ex_db "Some ''T''" _ "''o1''" ex_now ex_orders_body]
        ex_insert_orders
  by (simp add: ex_db_def ex_orders_body_def ex_profile_def orders_new_row_def)

text \<open>
  C4. A listing insert is permitted exactly when the requester is authenticated, the row's
  \<open>farmer_id\<close> is the requester's id and the requester has a profile of type farmer.
  This holds of the policy and of the insert itself: the insert is refused with a policy
  violation exactly when the condition fails, and it succeeds exactly when the condition
  holds and the row meets the constraints of the table. Each conjunct is needed: an
  insert with another \<open>farmer_id\<close> fails whatever the requester's role, and an insert by
  a requester without a farmer profile fails whatever the \<open>farmer_id\<close>.
\<close>

theorem listing_insert_permitted_iff:
  "(products_insert_policy (profiles db) auth row \<longleftrightarrow>
      (\<exists>uid. auth = Some uid \<and> pr_farmer_id row = Some uid \<and>
         (\<exists>p \<in> set (profiles db). pf_id p = Some uid \<and> pf_user_type p = Some ''farmer''))) \<and>
   (insert_products db auth gen now b = Inl PolicyViolation \<longleftrightarrow>
      \<not> (\<exists>uid. auth = Some uid \<and> b_pr_farmer_id b = Val uid \<and>
         (\<exists>p \<in> set (profiles db). pf_id p = Some uid \<and> pf_user_type p = Some ''farmer''))) \<and>
   (insert_products db auth gen now b = Inr db' \<longleftrightarrow>
      (\<exists>uid. auth = Some uid \<and> b_pr_farmer_id b = Val uid \<and>
         (\<exists>p \<in> set (profiles db). pf_id p = Some uid \<and> pf_user_type p = Some ''farmer'')) \<and>
      products_not_null (products_new_row gen now b) \<and>
      products_check (products_new_row gen now b) \<and>
      products_keys_error db (products db @ [products_new_row gen now b]) = None \<and>
      db' = db\<lparr>products := products db @ [products_new_row gen now b]\<rparr>) \<and>
   (b_pr_farmer_id b \<noteq> Val uid \<longrightarrow>
      insert_products db (Some uid) gen now b = Inl PolicyViolation) \<and>
   (\<not> (\<exists>p \<in> set (profiles db). pf_id p = Some uid \<and> pf_user_type p = Some ''farmer'') \<longrightarrow>
      insert_products db (Some uid) gen now b = Inl PolicyViolation)"
proof -
  have row: "pr_farmer_id (products_new_row gen now b) = Some u \<longleftrightarrow> b_pr_farmer_id b = Val u"
    for u
    by (simp add: products_new_row_def on_insert_Some)
  have pol: "products_insert_policy (profiles db) a (products_new_row gen now b) \<longleftrightarrow>
      (\<exists>uid. a = Some uid \<and> b_pr_farmer_id b = Val uid \<and>
         (\<exists>p \<in> set (profiles db). pf_id p = Some uid \<and> pf_user_type p = Some ''farmer''))"
    for a
    by (simp add: products_insert_policy_iff row)
  have refused: "insert_products db a gen now b = Inl PolicyViolation \<longleftrightarrow>
      \<not> (\<exists>uid. a = Some uid \<and> b_pr_farmer_id b = Val uid \<and>
         (\<exists>p \<in> set (profiles db). pf_id p = Some uid \<and> pf_user_type p = Some ''farmer''))"
    for a
    by (simp only: insert_products_PolicyViolation pol)
  have accepted: "insert_products db auth gen now b = Inr db' \<longleftrightarrow>
      (\<exists>uid. auth = Some uid \<and> b_pr_farmer_id b = Val uid \<and>
         (\<exists>p \<in> set (profiles db). pf_id p = Some uid \<and> pf_user_type p = Some ''farmer'')) \<and>
      products_not_null (products_new_row gen now b) \<and>
      products_check (products_new_row gen now b) \<and>
      products_keys_error db (products db @ [products_new_row gen now b]) = None \<and>
      db' = db\<lparr>products := products db @ [products_new_row gen now b]\<rparr>"
    by (simp only: insert_products_Inr pol)
  have other: "b_pr_farmer_id b \<noteq> Val uid \<longrightarrow>
      insert_products db (Some uid) gen now b = Inl PolicyViolation"
    by (simp add: refused)
  have role: "\<not> (\<exists>p \<in> set (profiles db). pf_id p = Some uid \<and> pf_user_type p = Some ''farmer'') \<longrightarrow>
      insert_products db (Some uid) gen now b = Inl PolicyViolation"
    by (simp add: refused)
  from products_insert_policy_iff [of "profiles db" auth row] refused [of auth] accepted other
    role
  show ?thesis by (intro conjI)
qed

theorem listing_insert_permitted_iff_witness:
  "products_insert_policy (profiles ex_db) (Some ''F'') (products_new_row ''p5'' ex_now ex_products_body) \<and>
   insert_products ex_db (Some ''G'') ''p5'' ex_now ex_products_body = Inl PolicyViolation \<and>
   insert_products ex_db (Some ''R'') ''p5'' ex_now (ex_products_body\<lparr>b_pr_farmer_id := Val ''R''\<rparr>)
     = Inl PolicyViolation \<and>
   insert_products ex_db (Some ''F'') ''p5'' ex_now ex_products_body =
     Inr (ex_db\<lparr>products := products ex_db @ [products_new_row ''p5'' ex_now ex_products_body]\<rparr>)"
  using listing_insert_permitted_iff
          [of ex_db "Some ''F''" "products_new_row ''p5'' ex_now ex_products_body" "''p5''" ex_now
              ex_products_body
              "ex_db\<lparr>products := products ex_db @ [products_new_row ''p5'' ex_now ex_products_body]\<rparr>"
              "''G''"]
        listing_insert_permitted_iff
          [of ex_db "Some ''R''" _ "''p5''" ex_now
              "ex_products_body\<lparr>b_pr_farmer_id := Val ''R''\<rparr>" _ "''R''"]
        ex_insert_products
  by (simp add: ex_db_def ex_products_body_def ex_profile_def products_new_row_def)

text \<open>
  C7. A message insert succeeds only when the request is authenticated and the row's
  \<open>sender_id\<close> is the requester's id. An insert with any other \<open>sender_id\<close> fails with a
  policy violation, whatever the \<open>receiver_id\<close>: in particular when the requester names
  itself as receiver and another identity as sender.
\<close>

theorem message_insert_requires_own_sender:
  "(insert_messages db auth gen now b = Inr db' \<longrightarrow>
      (\<exists>uid. auth = Some uid \<and> b_ms_sender_id b = Val uid)) \<and>
   (b_ms_sender_id b \<noteq> Val uid \<longrightarrow>
      insert_messages db (Some uid) gen now b = Inl PolicyViolation)"
proof (intro conjI impI)
  assume "insert_messages db auth gen now b = Inr db'"
  then have "messages_insert_policy auth (messages_new_row gen now b)"
    by (simp add: insert_messages_Inr)
  then show "\<exists>uid. auth = Some uid \<and> b_ms_sender_id b = Val uid"
    by (simp add: messages_insert_policy_iff messages_new_row_def on_insert_Some)
next
  assume "b_ms_sender_id b \<noteq> Val uid"
  then have "\<not> messages_insert_policy (Some uid) (messages_new_row gen now b)"
    by (simp add: messages_insert_policy_iff messages_new_row_def on_insert_Some)
  then show "insert_messages db (Some uid) gen now b = Inl PolicyViolation"
    by (rule insert_messages_denied)
qed

theorem message_insert_requires_own_sender_witness:
  "insert_messages ex_db (Some ''R'') ''m1'' ex_now ex_messages_body =
     Inr (ex_db\<lparr>messages := [messages_new_row ''m1'' ex_now ex_messages_body]\<rparr>) \<and>
   b_ms_sender_id ex_messages_body = Val ''R'' \<and>
   insert_messages ex_db (Some ''F'') ''m1'' ex_now ex_messages_body = Inl PolicyViolation"
  using message_insert_requires_own_sender
          [of ex_db "Some ''R''" "''m1''" ex_now ex_messages_body
              "ex_db\<lparr>messages := [messages_new_row ''m1'' ex_now ex_messages_body]\<rparr>" "''F''"]
        ex_insert_messages
  by (simp add: ex_messages_body_def)

subsection \<open>Amounts of an order\<close>

text \<open>
  C8. An order insert succeeds only when its quantity is positive and its total price is
  not negative. An insert with a quantity that is zero or negative, or with a negative
  total price, returns an error; an error result carries no database, so nothing of the
  row is stored.
\<close>

theorem order_insert_requires_positive_quantity:
  "(insert_orders db auth gen now b = Inr db' \<longrightarrow>
      (\<exists>q t. b_od_quantity b = Val q \<and> 0 < q \<and> b_od_total_price b = Val t \<and> 0 \<le> t)) \<and>
   ((\<exists>q. b_od_quantity b = Val q \<and> q \<le> 0) \<or> (\<exists>t. b_od_total_price b = Val t \<and> t < 0) \<longrightarrow>
      (\<exists>e. insert_orders db auth gen now b = Inl e))"
proof -
  have ok: "\<exists>q t. b_od_quantity b = Val q \<and> 0 < q \<and> b_od_total_price b = Val t \<and> 0 \<le> t"
    if "insert_orders db auth gen now b = Inr d" for d
  proof -
    from that have nn: "orders_not_null (orders_new_row gen now b)"
      and ck: "orders_check (orders_new_row gen now b)"
      by (simp_all add: insert_orders_Inr)
    from nn obtain q t where q: "b_od_quantity b = Val q" and t: "b_od_total_price b = Val t"
      by (auto simp: orders_not_null_def orders_new_row_def on_insert_Some)
    from ck q t have "0 < q" "0 \<le> t"
      by (simp_all add: orders_check_def orders_new_row_def sql_check_ok_def sql_gt_simps
            sql_ge_simps)
    with q t show ?thesis by simp
  qed
  have bad: "\<exists>e. insert_orders db auth gen now b = Inl e"
    if "(\<exists>q. b_od_quantity b = Val q \<and> q \<le> 0) \<or> (\<exists>t. b_od_total_price b = Val t \<and> t < 0)"
  proof (cases "insert_orders db auth gen now b")
    case (Inl e)
    then show ?thesis by simp
  next
    case (Inr d)
    from ok [OF Inr] that show ?thesis by auto
  qed
  from ok bad show ?thesis by blast
qed

theorem order_insert_requires_positive_quantity_witness:
  "insert_orders ex_db (Some ''R'') ''o1'' ex_now ex_orders_body =
     Inr (ex_db\<lparr>orders := [ex_order\<lparr>od_payment_method := Some ''online''\<rparr>]\<rparr>) \<and>
   b_od_quantity ex_orders_body = Val 5 \<and> b_od_total_price ex_orders_body = Val 100 \<and>
   insert_orders ex_db (Some ''R'') ''o1'' ex_now (ex_orders_body\<lparr>b_od_quantity := Val 0\<rparr>)
     = Inl CheckViolation \<and>
   insert_orders ex_db (Some ''R'') ''o1'' ex_now (ex_orders_body\<lparr>b_od_quantity := Val (- 2)\<rparr>)
     = Inl CheckViolation \<and>
   insert_orders ex_db (Some ''R'') ''o1'' ex_now (ex_orders_body\<lparr>b_od_total_price := Val (- 1)\<rparr>)
     = Inl CheckViolation"
  using order_insert_requires_positive_quantity
          [of ex_db "Some ''R''" "''o1''" ex_now ex_orders_body
              "ex_db\<lparr>orders := [ex_order\<lparr>od_payment_method := Some ''online''\<rparr>]\<rparr>"]
  by (simp add: orders_eval sql_eval ex_data sql_and_true)


subsection \<open>Placing an order\<close>

lemma json_number_Some:
  "on_insert None (json_number n) = Some v \<longleftrightarrow> (\<exists>a. n = Finite a \<and> v = Number_toString a)"
  by (cases n) auto

lemma js_times_Finite:
  "js_times a b = Finite v \<longleftrightarrow> (\<exists>x y. a = Finite x \<and> b = Finite y \<and> to_double (x * y) = Finite v)"
  by (cases "(a, b)" rule: js_times.cases) auto

lemma handlePlaceOrder_Inr:
  assumes "handlePlaceOrder parseFloat db user gen now product d = Inr db'"
  shows "\<exists>row. orders db' = orders db @ [row] \<and>
           row = orders_new_row gen now (handlePlaceOrder_body parseFloat user product d) \<and>
           orders_insert_policy (profiles db) user row \<and> orders_not_null row \<and>
           orders_keys_error db (orders db @ [row]) = None"
  using assms by (simp add: handlePlaceOrder_def insert_orders_Inr)

lemmas place_eval =
  handlePlaceOrder_def handlePlaceOrder_body_def json_optional_def or_null_def

lemma ex_handlePlaceOrder:
  "handlePlaceOrder ex_parseFloat ex_db (Some ''R'') ''o1'' ex_now ex_Product ex_orderData =
     Inr (ex_db\<lparr>orders := [ex_order]\<rparr>)"
  by (simp add: place_eval orders_eval sql_eval ex_data sql_and_true ex_whole_numbers)

text \<open>
  C5, as stated, fails in two ways. The client multiplies doubles: for the listing
  \<open>p1\<close> priced at one tenth and the quantity 3, the order is stored with quantity 3 and
  total price \<open>0.30000000000000004\<close>, not three tenths. And the client multiplies by the
  price it holds: for the listing \<open>p1\<close> whose price is now 30 and a client that still
  holds 20, the order for 5 is stored with total price 100, not 150.
\<close>

theorem placed_order_total_counterexample:
  "handlePlaceOrder ex_parseFloat ex_db_cheap (Some ''R'') ''o1'' ex_now
      (ex_Product\<lparr>P_price := to_double (1 / 10)\<rparr>) (ex_orderData\<lparr>D_quantity := ''3''\<rparr>) =
     Inr (ex_db_cheap\<lparr>orders :=
            [ex_order\<lparr>od_quantity := Some 3,
                      od_total_price := Some (30000000000000004 / 100000000000000000)\<rparr>]\<rparr>) \<and>
   map pr_id (products ex_db_cheap) = [Some ''p1''] \<and>
   map pr_price (products ex_db_cheap) = [Some (1 / 10)] \<and>
   (3 :: rat) * (1 / 10) \<noteq> 30000000000000004 / 100000000000000000 \<and>
   handlePlaceOrder ex_parseFloat ex_db_dear (Some ''R'') ''o1'' ex_now ex_Product ex_orderData =
     Inr (ex_db_dear\<lparr>orders := [ex_order]\<rparr>) \<and>
   map pr_id (products ex_db_dear) = [Some ''p1''] \<and>
   map pr_price (products ex_db_dear) = [Some 30] \<and>
   od_quantity ex_order = Some 5 \<and> od_total_price ex_order = Some 100 \<and>
   (5 :: rat) * 30 \<noteq> 100"
  by (simp add: place_eval orders_eval sql_eval ex_data sql_and_true ex_whole_numbers ex_tenth
        ex_three_tenths ex_three_tenths_written)

text \<open>
  C5, amended. Every order that \<open>handlePlaceOrder\<close> creates is stored with status
  \<open>pending\<close>, with the id of the client's \<open>product\<close> as the listing it references, and
  with a total price that is the product of the parsed quantity and \<open>product.price\<close>,
  the price that the client holds for the listing, as doubles multiply and as JSON writes
  the result. With quantity 5 at price 20 the total price is 100.
\<close>

theorem placed_order_pending_with_total:
  assumes placed: "handlePlaceOrder parseFloat db user gen now product d = Inr db'"
  shows "\<exists>row q p t. orders db' = orders db @ [row] \<and> od_status row = Some ''pending'' \<and>
           od_product_id row = Some (P_id product) \<and>
           parseFloat (D_quantity d) = Finite q \<and> P_price product = Finite p \<and>
           od_quantity row = Some (Number_toString q) \<and>
           js_times (Finite q) (Finite p) = Finite t \<and>
           od_total_price row = Some (Number_toString t)"
proof -
  let ?row = "orders_new_row gen now (handlePlaceOrder_body parseFloat user product d)"
  from handlePlaceOrder_Inr [OF placed]
  have rows: "orders db' = orders db @ [?row]" and nn: "orders_not_null ?row"
    by auto
  from nn have "od_total_price ?row \<noteq> None"
    by (simp add: orders_not_null_def)
  then obtain v where "on_insert None
      (json_number (js_times (parseFloat (D_quantity d)) (P_price product))) = Some v"
    by (auto simp: orders_new_row_def handlePlaceOrder_body_def Let_def)
  then obtain t where t: "js_times (parseFloat (D_quantity d)) (P_price product) = Finite t"
    by (auto simp: json_number_Some)
  then obtain q p where q: "parseFloat (D_quantity d) = Finite q"
    and p: "P_price product = Finite p"
    by (auto simp: js_times_Finite)
  have "od_status ?row = Some ''pending''"
    by (simp add: orders_new_row_def handlePlaceOrder_body_def Let_def)
  moreover have "od_product_id ?row = Some (P_id product)"
    by (simp add: orders_new_row_def handlePlaceOrder_body_def Let_def)
  moreover have "od_quantity ?row = Some (Number_toString q)"
    by (simp add: orders_new_row_def handlePlaceOrder_body_def Let_def q)
  moreover have "js_times (Finite q) (Finite p) = Finite t"
    using t q p by simp
  moreover have "od_total_price ?row = Some (Number_toString t)"
    using t by (simp add: orders_new_row_def handlePlaceOrder_body_def Let_def)
  ultimately show ?thesis using rows q p by blast
qed

theorem placed_order_pending_with_total_witness:
  "handlePlaceOrder ex_parseFloat ex_db (Some ''R'') ''o1'' ex_now ex_Product ex_orderData =
     Inr (ex_db\<lparr>orders := [ex_order]\<rparr>) \<and>
   ex_parseFloat (D_quantity ex_orderData) = Finite 5 \<and> P_price ex_Product = Finite 20 \<and>
   js_times (Finite 5) (Finite 20) = Finite 100 \<and>
   od_product_id ex_order = Some ''p1'' \<and> od_status ex_order = Some ''pending'' \<and>
   od_quantity ex_order = Some 5 \<and> od_total_price ex_order = Some 100"
proof -
  from placed_order_pending_with_total [OF ex_handlePlaceOrder]
  show ?thesis
    by (simp add: ex_handlePlaceOrder) (simp add: ex_data ex_whole_numbers)
qed

text \<open>The retailer \<open>R\<close> hands the order placed above to farmer \<open>G\<close>; the update succeeds.\<close>

lemma ex_farmer_id_rewritten:
  "update_orders (ex_db\<lparr>orders := [ex_order]\<rparr>) (Some ''R'')
     (\<lambda>r. sql_is_true (sql_eq (od_id r) (Some ''o1''))) ex_reassign_body =
     Inr (ex_db\<lparr>orders := [ex_order\<lparr>od_farmer_id := Some ''G''\<rparr>]\<rparr>)"
  by (simp add: orders_eval sql_eval ex_data)

text \<open>
  C6, as stated, fails. Not every order carries the \<open>farmer_id\<close> of the listing it
  references when it is created: the insert policy looks at \<open>retailer_id\<close> only, and no
  constraint compares the order with the listing. The retailer \<open>R\<close> inserts an order
  for the listing \<open>p1\<close> of farmer \<open>F\<close> with \<open>farmer_id\<close> \<open>G\<close>, and the insert succeeds.
\<close>

theorem order_farmer_not_enforced_counterexample:
  "insert_orders ex_db (Some ''R'') ''o1'' ex_now (ex_orders_body\<lparr>b_od_farmer_id := Val ''G''\<rparr>) =
     Inr (ex_db\<lparr>orders := [ex_order\<lparr>od_farmer_id := Some ''G'',
                                      od_payment_method := Some ''online''\<rparr>]\<rparr>) \<and>
   od_product_id ex_order = Some ''p1'' \<and>
   map pr_id (products ex_db) = [Some ''p1'', Some ''p2'', Some ''p3'', Some ''p4''] \<and>
   map pr_farmer_id (products ex_db) = [Some ''F'', Some ''F'', Some ''G'', Some ''G'']"
  by (simp add: orders_eval sql_eval ex_data sql_and_true)

text \<open>
  C6, amended. Every order that \<open>handlePlaceOrder\<close> creates references a listing of the
  table, the one whose id the client's \<open>product\<close> holds, and is stored with the
  \<open>farmer_id\<close> that this \<open>product\<close> holds. Where the client's copy agrees with the table
  (a listing of that id has that \<open>farmer_id\<close>, and ids are unique), the order's
  \<open>farmer_id\<close> is that of the listing it references. The storage layer does not check
  this when the order is inserted, and nothing compares the two afterwards: the update
  policy looks at the parties of the order only, so it lets the retailer who placed the
  order give it any other \<open>farmer_id\<close>.
\<close>

theorem placed_order_carries_product_farmer:
  assumes placed: "handlePlaceOrder parseFloat db user gen now product d = Inr db'"
  shows "\<exists>row. orders db' = orders db @ [row] \<and> products db' = products db \<and>
           od_product_id row = Some (P_id product) \<and>
           od_farmer_id row = Some (P_farmer_id product) \<and>
           (\<exists>l \<in> set (products db). pr_id l = od_product_id row) \<and>
           (distinct (map pr_id (products db)) \<and>
            (\<exists>l \<in> set (products db). pr_id l = Some (P_id product) \<and>
                                      pr_farmer_id l = Some (P_farmer_id product)) \<longrightarrow>
            (\<forall>l \<in> set (products db'). pr_id l = od_product_id row \<longrightarrow>
                                       pr_farmer_id l = od_farmer_id row)) \<and>
           (\<forall>f. orders_update_using user row \<and>
                orders_update_check user (row\<lparr>od_farmer_id := f\<rparr>))"
proof -
  let ?row = "orders_new_row gen now (handlePlaceOrder_body parseFloat user product d)"
  from handlePlaceOrder_Inr [OF placed]
  have rows: "orders db' = orders db @ [?row]"
    and pol: "orders_insert_policy (profiles db) user ?row"
    and keys: "orders_keys_error db (orders db @ [?row]) = None"
    by auto
  from placed have same: "products db' = products db"
    by (auto simp: handlePlaceOrder_def insert_orders_Inr)
  from pol obtain uid where uid: "user = Some uid" "od_retailer_id ?row = Some uid"
    by (auto simp: orders_insert_policy_iff)
  have pid: "od_product_id ?row = Some (P_id product)"
    and fid: "od_farmer_id ?row = Some (P_farmer_id product)"
    by (simp_all add: orders_new_row_def handlePlaceOrder_body_def Let_def)
  from keys have "references (map pr_id (products db)) (od_product_id ?row)"
    by (simp add: orders_keys_error_def list_all_iff split: if_splits)
  with pid have listed: "\<exists>l \<in> set (products db). pr_id l = od_product_id ?row"
    by (auto simp: references_def)
  have current: "\<forall>l \<in> set (products db'). pr_id l = od_product_id ?row \<longrightarrow>
        pr_farmer_id l = od_farmer_id ?row"
    if pk: "distinct (map pr_id (products db))"
      and copy: "\<exists>l \<in> set (products db). pr_id l = Some (P_id product) \<and>
                                          pr_farmer_id l = Some (P_farmer_id product)"
  proof (intro ballI impI)
    fix l assume l: "l \<in> set (products db')" "pr_id l = od_product_id ?row"
    from copy obtain l0 where l0: "l0 \<in> set (products db)" "pr_id l0 = Some (P_id product)"
      "pr_farmer_id l0 = Some (P_farmer_id product)"
      by blast
    from pk have inj: "inj_on pr_id (set (products db))"
      by (simp add: distinct_map)
    from l l0 same pid have eq: "pr_id l = pr_id l0" and mem: "l \<in> set (products db)"
      by simp_all
    from inj eq mem l0(1) have "l = l0"
      by (rule inj_onD)
    with l0 fid show "pr_farmer_id l = od_farmer_id ?row"
      by simp
  qed
  have free: "orders_update_using user ?row \<and>
      orders_update_check user (?row\<lparr>od_farmer_id := f\<rparr>)" for f
    using uid by (simp add: orders_update_using_def orders_update_check_def sql_or_true sql_eq_true)
  from rows same pid fid listed current free show ?thesis
    by blast
qed

theorem placed_order_carries_product_farmer_witness:
  "handlePlaceOrder ex_parseFloat ex_db (Some ''R'') ''o1'' ex_now ex_Product ex_orderData =
     Inr (ex_db\<lparr>orders := [ex_order]\<rparr>) \<and>
   P_id ex_Product = ''p1'' \<and> P_farmer_id ex_Product = ''F'' \<and>
   od_product_id ex_order = Some ''p1'' \<and> od_farmer_id ex_order = Some ''F'' \<and>
   distinct (map pr_id (products ex_db)) \<and>
   map pr_farmer_id (filter (\<lambda>l. pr_id l = Some ''p1'') (products ex_db)) = [Some ''F''] \<and>
   orders_update_check (Some ''R'') (ex_order\<lparr>od_farmer_id := Some ''G''\<rparr>)"
proof -
  from placed_order_carries_product_farmer [OF ex_handlePlaceOrder]
  show ?thesis
    by (simp add: ex_handlePlaceOrder) (simp add: ex_data)
qed

subsection \<open>Status of an order\<close>

lemma status_buttons_iff:
  "t \<in> set (status_buttons profile order) \<longleftrightarrow>
     map_option U_user_type profile = Some farmer \<and>
     (O_status order = pending \<and> (t = accepted \<or> t = rejected) \<or>
      O_status order = accepted \<and> t = completed)"
  by (auto simp: status_buttons_def)

lemma orders_set_status_parties:
  "od_retailer_id (orders_set (handleUpdateStatus_body now s) row) = od_retailer_id row"
  "od_farmer_id (orders_set (handleUpdateStatus_body now s) row) = od_farmer_id row"
  by (simp_all add: orders_set_def handleUpdateStatus_body_def)

text \<open>
  C2, as stated, fails. A party to an order may change its status after it has become
  \<open>rejected\<close> or \<open>completed\<close>: the retailer \<open>R\<close> moves a rejected order to
  \<open>accepted\<close>, and the farmer \<open>F\<close> moves a completed order back to \<open>pending\<close>.
  \<open>handleUpdateStatus\<close> sends either request and the database accepts it.
\<close>

theorem terminal_status_not_enforced_counterexample:
  "handleUpdateStatus (ex_db\<lparr>orders := [ex_order\<lparr>od_status := Some ''rejected''\<rparr>]\<rparr>)
      (Some ''R'') ex_later [ex_Order\<lparr>O_status := rejected\<rparr>] ''o1'' accepted
     = Inr (ex_db\<lparr>orders := [ex_order\<lparr>od_status := Some ''accepted'',
                                          od_updated_at := Some ex_later\<rparr>]\<rparr>,
            [ex_Order\<lparr>O_status := accepted\<rparr>]) \<and>
   handleUpdateStatus (ex_db\<lparr>orders := [ex_order\<lparr>od_status := Some ''completed''\<rparr>]\<rparr>)
      (Some ''F'') ex_later [ex_Order\<lparr>O_status := completed\<rparr>] ''o1'' pending
     = Inr (ex_db\<lparr>orders := [ex_order\<lparr>od_status := Some ''pending'',
                                          od_updated_at := Some ex_later\<rparr>]\<rparr>,
            [ex_Order\<lparr>O_status := pending\<rparr>])"
  by (simp add: handleUpdateStatus_def handleUpdateStatus_body_def orders_eval sql_eval ex_data)

text \<open>
  C2, amended. \<open>rejected\<close> and \<open>completed\<close> are terminal by the convention of the
  Orders view only. The view renders a status button only for a farmer's profile: Accept
  and Reject on an order it shows as pending, Complete on one it shows as accepted; on an
  order it shows as rejected or completed it renders none. The update policy does not
  look at the status: whoever may update the row may set it to each of the four values.
\<close>

theorem terminal_status_by_client_convention:
  "(t \<in> set (status_buttons profile order) \<longleftrightarrow>
      map_option U_user_type profile = Some farmer \<and>
      (O_status order = pending \<and> (t = accepted \<or> t = rejected) \<or>
       O_status order = accepted \<and> t = completed)) \<and>
   (O_status order = rejected \<or> O_status order = completed \<longrightarrow>
      status_buttons profile order = []) \<and>
   (orders_update_using auth row \<longrightarrow>
      orders_update_check auth (orders_set (handleUpdateStatus_body now s) row) \<and>
      od_status (orders_set (handleUpdateStatus_body now s) row) = Some (status_text s))"
proof (intro conjI impI)
  show "t \<in> set (status_buttons profile order) \<longleftrightarrow>
      map_option U_user_type profile = Some farmer \<and>
      (O_status order = pending \<and> (t = accepted \<or> t = rejected) \<or>
       O_status order = accepted \<and> t = completed)"
    by (rule status_buttons_iff)
next
  assume "O_status order = rejected \<or> O_status order = completed"
  then show "status_buttons profile order = []"
    by (auto simp: status_buttons_def)
next
  assume "orders_update_using auth row"
  then show "orders_update_check auth (orders_set (handleUpdateStatus_body now s) row)"
    by (cases auth)
       (simp_all add: orders_update_using_def orders_update_check_def orders_set_status_parties)
next
  show "od_status (orders_set (handleUpdateStatus_body now s) row) = Some (status_text s)"
    by (simp add: orders_set_def handleUpdateStatus_body_def)
qed

theorem terminal_status_by_client_convention_witness:
  "set (status_buttons (Some ex_Profile) ex_Order) = {accepted, rejected} \<and>
   status_buttons (Some ex_Profile) (ex_Order\<lparr>O_status := rejected\<rparr>) = [] \<and>
   orders_update_using (Some ''R'') (ex_order\<lparr>od_status := Some ''rejected''\<rparr>) \<and>
   orders_update_check (Some ''R'')
     (orders_set (handleUpdateStatus_body ex_later accepted)
        (ex_order\<lparr>od_status := Some ''rejected''\<rparr>)) \<and>
   od_status (orders_set (handleUpdateStatus_body ex_later accepted)
        (ex_order\<lparr>od_status := Some ''rejected''\<rparr>)) = Some ''accepted''"
proof -
  have upd: "orders_update_using (Some ''R'') (ex_order\<lparr>od_status := Some ''rejected''\<rparr>)"
    by (simp add: orders_update_using_def sql_or_true sql_eq_true ex_order_def)
  have "status_buttons (Some ex_Profile) ex_Order = [accepted, rejected]"
    by (simp add: status_buttons_def ex_Order_def ex_Profile_def)
  with terminal_status_by_client_convention
         [of accepted "Some ex_Profile" "ex_Order\<lparr>O_status := rejected\<rparr>" "Some ''R''"
             "ex_order\<lparr>od_status := Some ''rejected''\<rparr>" ex_later accepted]
       upd
  show ?thesis by simp
qed

subsection \<open>Editing a listing\<close>

lemma update_products_Inr:
  "update_products db auth wh b = Inr db' \<Longrightarrow>
   products db' =
     map (\<lambda>r. if wh r \<and> products_update_using auth r then products_set b r else r) (products db)"
  by (auto simp: update_products_def Let_def split: option.splits)

lemma ex_handleSubmit:
  "handleSubmit ex_parseFloat ex_db (Some ''F'') ''p5'' ex_later (Some ex_Product) ex_formData =
     Inr (ex_db\<lparr>products :=
            ex_tomatoes\<lparr>pr_name := Some ''Cherry tomatoes'', pr_description := Some [],
                         pr_price := Some 25, pr_quantity_available := Some 80\<rparr>
            # tl (products ex_db)\<rparr>)"
  by (simp add: handleSubmit_def productData_def or_null_def products_eval sql_eval ex_data
        ex_whole_numbers)

text \<open>
  C10. The body that \<open>handleSubmit\<close> sends holds the columns name, description,
  category, price, unit, quantity_available, image_url and location and no other column.
  When the modal edits an existing listing and the update succeeds, every row of the
  table keeps its \<open>farmer_id\<close> and its \<open>is_available\<close> flag.
\<close>

theorem edit_leaves_owner_and_availability:
  "b_pr_id (productData parseFloat f) = Absent \<and>
   b_pr_farmer_id (productData parseFloat f) = Absent \<and>
   b_pr_is_available (productData parseFloat f) = Absent \<and>
   b_pr_created_at (productData parseFloat f) = Absent \<and>
   b_pr_updated_at (productData parseFloat f) = Absent \<and>
   b_pr_name (productData parseFloat f) \<noteq> Absent \<and>
   b_pr_description (productData parseFloat f) \<noteq> Absent \<and>
   b_pr_category (productData parseFloat f) \<noteq> Absent \<and>
   b_pr_price (productData parseFloat f) \<noteq> Absent \<and>
   b_pr_unit (productData parseFloat f) \<noteq> Absent \<and>
   b_pr_quantity_available (productData parseFloat f) \<noteq> Absent \<and>
   b_pr_image_url (productData parseFloat f) \<noteq> Absent \<and>
   b_pr_location (productData parseFloat f) \<noteq> Absent \<and>
   (handleSubmit parseFloat db user gen now (Some p) f = Inr db' \<longrightarrow>
      map pr_farmer_id (products db') = map pr_farmer_id (products db) \<and>
      map pr_is_available (products db') = map pr_is_available (products db))"
proof -
  have num: "json_number n \<noteq> Absent" for n
    by (cases n) simp_all
  have body: "b_pr_id (productData parseFloat f) = Absent \<and>
   b_pr_farmer_id (productData parseFloat f) = Absent \<and>
   b_pr_is_available (productData parseFloat f) = Absent \<and>
   b_pr_created_at (productData parseFloat f) = Absent \<and>
   b_pr_updated_at (productData parseFloat f) = Absent \<and>
   b_pr_name (productData parseFloat f) \<noteq> Absent \<and>
   b_pr_description (productData parseFloat f) \<noteq> Absent \<and>
   b_pr_category (productData parseFloat f) \<noteq> Absent \<and>
   b_pr_price (productData parseFloat f) \<noteq> Absent \<and>
   b_pr_unit (productData parseFloat f) \<noteq> Absent \<and>
   b_pr_quantity_available (productData parseFloat f) \<noteq> Absent \<and>
   b_pr_image_url (productData parseFloat f) \<noteq> Absent \<and>
   b_pr_location (productData parseFloat f) \<noteq> Absent"
    by (simp add: productData_def or_null_def num)
  have keep: "pr_farmer_id (products_set (productData parseFloat f) r) = pr_farmer_id r"
    "pr_is_available (products_set (productData parseFloat f) r) = pr_is_available r" for r
    by (simp_all add: products_set_def productData_def)
  have frame: "map pr_farmer_id (products db') = map pr_farmer_id (products db) \<and>
      map pr_is_available (products db') = map pr_is_available (products db)"
    if "handleSubmit parseFloat db user gen now (Some p) f = Inr db'"
  proof -
    from that have "products db' =
        map (\<lambda>r. if sql_is_true (sql_eq (pr_id r) (Some (P_id p))) \<and> products_update_using user r
                 then products_set (productData parseFloat f) r else r) (products db)"
      by (simp add: handleSubmit_def update_products_Inr)
    then show ?thesis
      by (simp add: keep o_def cong: map_cong)
  qed
  from body frame show ?thesis by blast
qed

theorem edit_leaves_owner_and_availability_witness:
  "handleSubmit ex_parseFloat ex_db (Some ''F'') ''p5'' ex_later (Some ex_Product) ex_formData =
     Inr (ex_db\<lparr>products :=
            ex_tomatoes\<lparr>pr_name := Some ''Cherry tomatoes'', pr_description := Some [],
                         pr_price := Some 25, pr_quantity_available := Some 80\<rparr>
            # tl (products ex_db)\<rparr>) \<and>
   map pr_farmer_id (products ex_db) = [Some ''F'', Some ''F'', Some ''G'', Some ''G''] \<and>
   map pr_is_available (products ex_db) = [Some True, Some False, Some False, None]"
  using edit_leaves_owner_and_availability
          [of ex_parseFloat ex_formData ex_db "Some ''F''" "''p5''" ex_later ex_Product]
        ex_handleSubmit
  by (simp add: ex_db_def ex_tomatoes_def)


subsection \<open>Filtering the marketplace\<close>

lemma prefix_iff_take: "prefix q s \<longleftrightarrow> take (length q) s = q"
proof
  assume "prefix q s"
  then obtain zs where "s = q @ zs" by (auto simp: prefix_def)
  then show "take (length q) s = q" by simp
next
  assume "take (length q) s = q"
  then have "prefix (take (length q) s) s \<Longrightarrow> prefix q s" by simp
  then show "prefix q s" by (simp add: take_is_prefix)
qed

lemma ex_less_Suc_shift: "(\<exists>i<Suc n. P i) \<longleftrightarrow> P 0 \<or> (\<exists>j<n. P (Suc j))"
  by (auto simp: less_Suc_eq_0_disj)

lemma str_includes_iff_position:
  "str_includes s q \<longleftrightarrow> (\<exists>i<Suc (length s). take (length q) (drop i s) = q)"
proof (induction s)
  case Nil
  then show ?case by auto
next
  case (Cons c s)
  have "(\<exists>i<Suc (length (c # s)). take (length q) (drop i (c # s)) = q) \<longleftrightarrow>
        take (length q) (c # s) = q \<or> (\<exists>j<Suc (length s). take (length q) (drop j s) = q)"
    by (subst ex_less_Suc_shift) simp
  moreover have "str_includes (c # s) q \<longleftrightarrow>
        take (length q) (c # s) = q \<or> (\<exists>j<Suc (length s). take (length q) (drop j s) = q)"
    by (simp only: str_includes.simps prefix_iff_take Cons.IH)
  ultimately show ?case by (rule ssubst)
qed

lemma of_char_lower: "is_upper c \<Longrightarrow> (of_char (ascii_lower c) :: nat) = of_char c + 32"
  by (simp add: ascii_lower_def is_upper_def)

lemma ascii_lower_eq_iff: "ascii_lower a = ascii_lower b \<longleftrightarrow> same_letter a b"
proof -
  have "ascii_lower a = ascii_lower b \<longleftrightarrow>
        (of_char (ascii_lower a) :: nat) = of_char (ascii_lower b)"
    by simp
  also have "\<dots> \<longleftrightarrow> same_letter a b"
  proof (cases "is_upper a"; cases "is_upper b")
    assume "is_upper a" "is_upper b"
    then show ?thesis
      by (auto simp: of_char_lower same_letter_def is_upper_def)
  next
    assume "is_upper a" "\<not> is_upper b"
    then show ?thesis
      by (auto simp: of_char_lower same_letter_def) (auto simp: ascii_lower_def)
  next
    assume "\<not> is_upper a" "is_upper b"
    then show ?thesis
      by (auto simp: of_char_lower same_letter_def) (auto simp: ascii_lower_def)
  next
    assume "\<not> is_upper a" "\<not> is_upper b"
    then show ?thesis
      by (auto simp: same_letter_def ascii_lower_def)
  qed
  finally show ?thesis .
qed


lemma map_eq_iff_same_letter:
  "map ascii_lower xs = map ascii_lower ys \<longleftrightarrow> list_all2 same_letter xs ys"
proof -
  have "map ascii_lower xs = map ascii_lower ys \<longleftrightarrow>
        list_all2 (=) (map ascii_lower xs) (map ascii_lower ys)"
    by (simp add: list.rel_eq)
  also have "\<dots> \<longleftrightarrow> list_all2 (\<lambda>a b. ascii_lower a = ascii_lower b) xs ys"
    by (simp add: list.rel_map)
  finally show ?thesis
    by (simp only: ascii_lower_eq_iff)
qed

lemma includes_lowered_iff_ci_contains:
  "str_includes (map ascii_lower t) (map ascii_lower q) \<longleftrightarrow> ci_contains q t"
proof -
  have "str_includes (map ascii_lower t) (map ascii_lower q) \<longleftrightarrow>
        (\<exists>i<Suc (length t). take (length q) (drop i (map ascii_lower t)) = map ascii_lower q)"
    by (simp only: str_includes_iff_position length_map)
  also have "\<dots> \<longleftrightarrow>
        (\<exists>i<Suc (length t). map ascii_lower (take (length q) (drop i t)) = map ascii_lower q)"
    by (simp only: drop_map take_map)
  also have "\<dots> \<longleftrightarrow> (\<exists>i<Suc (length t). list_all2 same_letter (take (length q) (drop i t)) q)"
    by (simp only: map_eq_iff_same_letter)
  also have "\<dots> \<longleftrightarrow> ci_contains q t"
    by (simp only: ci_contains_def list_ex_iff Bex_def set_upt atLeastLessThan_iff) simp
  finally show ?thesis .
qed

lemma filterProducts_filter:
  "filterProducts lower prods q c =
     filter (\<lambda>p. (c = ''All'' \<or> P_category p = c) \<and>
                 (q = [] \<or> str_includes (lower (P_name p)) (lower q) \<or>
                  optional_includes lower (P_description p) (lower q) \<or>
                  optional_includes lower (P_location p) (lower q)))
       prods"
proof (cases "c = ''All''")
  case True
  show ?thesis
  proof (cases "q = []")
    case True
    with \<open>c = ''All''\<close> show ?thesis by (simp add: filterProducts_def)
  next
    case False
    with \<open>c = ''All''\<close> show ?thesis by (simp add: filterProducts_def Let_def)
  qed
next
  case False
  show ?thesis
  proof (cases "q = []")
    case True
    with \<open>c \<noteq> ''All''\<close> show ?thesis by (simp add: filterProducts_def)
  next
    case False
    with \<open>c \<noteq> ''All''\<close> show ?thesis by (simp add: filterProducts_def Let_def conj_commute)
  qed
qed

lemma optional_includes_iff:
  "optional_includes lower t query \<longleftrightarrow> (\<exists>x. t = Some x \<and> str_includes (lower x) query)"
  by (cases t) (simp_all add: optional_includes_def)

lemma optional_includes_ascii:
  assumes "\<forall>s. list_all is_ascii s \<longrightarrow> lower s = map ascii_lower s"
    and "list_all is_ascii q"
    and "case t of None \<Rightarrow> True | Some x \<Rightarrow> list_all is_ascii x"
  shows "optional_includes lower t (lower q) \<longleftrightarrow> ci_contains_optional q t"
  using assms
  by (cases t)
     (simp_all add: optional_includes_def ci_contains_optional_def
        includes_lowered_iff_ci_contains)

lemma ex_toLowerCase_ascii: "list_all is_ascii s \<Longrightarrow> ex_toLowerCase s = map ascii_lower s"
  by (auto simp: ex_toLowerCase_def ex_OSA_def ex_OS_def is_ascii_def)

lemma ex_catalog_ascii: "list_all is_ascii ''TOM''" "list_all ascii_Product ex_catalog"
  by code_simp+

lemma ex_filterProducts:
  "map P_name (filterProducts ex_toLowerCase ex_catalog ''TOM'' ''All'') = [''Tomatoes'', ''Rice'']"
  "map P_name (filterProducts ex_toLowerCase ex_catalog ''alphonso'' ''Fruits'') = [''Mangoes'']"
  "map P_name (filterProducts ex_toLowerCase ex_catalog ''alphonso'' ''Grains'') = []"
  "map P_name (filterProducts ex_toLowerCase ex_catalog [] ''Grains'') = [''Rice'']"
  by code_simp+

text \<open>
  C9, as stated, fails. \<open>toLowerCase\<close> turns a capital sigma into the final small sigma
  at the end of a word and into the ordinary small sigma elsewhere. For the query of
  capital omicron and sigma and a listing named with capital omicron, sigma and alpha,
  the query occurs in the name letter for letter, yet the lowered query does not occur in
  the lowered name, and \<open>filterProducts\<close> returns nothing.
\<close>

theorem case_insensitive_search_counterexample:
  "filterProducts ex_toLowerCase [ex_Product\<lparr>P_name := ex_OSA\<rparr>] ex_OS ''All'' = [] \<and>
   ex_OS \<noteq> [] \<and>
   str_includes ex_OSA ex_OS \<and>
   ci_contains ex_OS ex_OSA"
  by code_simp

text \<open>
  C9, amended. For every list of listings, selected category \<open>c\<close> and search query
  \<open>q\<close>, \<open>filterProducts\<close> returns exactly the listings, in their order, whose category
  is \<open>c\<close> (no restriction when \<open>c\<close> is \<open>All\<close>) and, when \<open>q\<close> is not empty, whose
  name, description or location, lowered by \<open>toLowerCase\<close>, contains the lowered \<open>q\<close>;
  an absent description or location contains nothing. When the query and the texts are
  ASCII, this is the containment of \<open>q\<close> as a case-insensitive substring. There is no
  ranking: the result is a sublist of the input.
\<close>

theorem filterProducts_exact:
  "filterProducts lower prods q c =
     filter (\<lambda>p. (c = ''All'' \<or> P_category p = c) \<and>
                 (q = [] \<or> str_includes (lower (P_name p)) (lower q) \<or>
                  (\<exists>t. P_description p = Some t \<and> str_includes (lower t) (lower q)) \<or>
                  (\<exists>t. P_location p = Some t \<and> str_includes (lower t) (lower q))))
       prods \<and>
   ((\<forall>s. list_all is_ascii s \<longrightarrow> lower s = map ascii_lower s) \<and>
    list_all is_ascii q \<and> list_all ascii_Product prods \<longrightarrow>
    filterProducts lower prods q c =
      filter (\<lambda>p. (c = ''All'' \<or> P_category p = c) \<and>
                  (q = [] \<or> ci_contains q (P_name p) \<or>
                   ci_contains_optional q (P_description p) \<or>
                   ci_contains_optional q (P_location p)))
        prods)"
proof (intro conjI impI)
  show "filterProducts lower prods q c =
     filter (\<lambda>p. (c = ''All'' \<or> P_category p = c) \<and>
                 (q = [] \<or> str_includes (lower (P_name p)) (lower q) \<or>
                  (\<exists>t. P_description p = Some t \<and> str_includes (lower t) (lower q)) \<or>
                  (\<exists>t. P_location p = Some t \<and> str_includes (lower t) (lower q))))
       prods"
    by (simp only: filterProducts_filter optional_includes_iff)
next
  assume ascii: "(\<forall>s. list_all is_ascii s \<longrightarrow> lower s = map ascii_lower s) \<and>
    list_all is_ascii q \<and> list_all ascii_Product prods"
  then have low: "\<forall>s. list_all is_ascii s \<longrightarrow> lower s = map ascii_lower s"
    and q: "list_all is_ascii q" and prods: "list_all ascii_Product prods"
    by simp_all
  have "(str_includes (lower (P_name p)) (lower q) \<or>
         optional_includes lower (P_description p) (lower q) \<or>
         optional_includes lower (P_location p) (lower q)) \<longleftrightarrow>
        (ci_contains q (P_name p) \<or> ci_contains_optional q (P_description p) \<or>
         ci_contains_optional q (P_location p))"
    if "p \<in> set prods" for p
  proof -
    from prods that have p: "ascii_Product p"
      by (simp add: list_all_iff)
    then have "lower (P_name p) = map ascii_lower (P_name p)"
      using low by (simp add: ascii_Product_def)
    moreover from q low have "lower q = map ascii_lower q"
      by simp
    ultimately have "str_includes (lower (P_name p)) (lower q) \<longleftrightarrow> ci_contains q (P_name p)"
      by (simp only: includes_lowered_iff_ci_contains)
    moreover from p have
      "optional_includes lower (P_description p) (lower q) \<longleftrightarrow>
         ci_contains_optional q (P_description p)"
      "optional_includes lower (P_location p) (lower q) \<longleftrightarrow>
         ci_contains_optional q (P_location p)"
      by (simp_all add: optional_includes_ascii [OF low q] ascii_Product_def)
    ultimately show ?thesis by simp
  qed
  then show "filterProducts lower prods q c =
      filter (\<lambda>p. (c = ''All'' \<or> P_category p = c) \<and>
                  (q = [] \<or> ci_contains q (P_name p) \<or>
                   ci_contains_optional q (P_description p) \<or>
                   ci_contains_optional q (P_location p)))
        prods"
    by (simp only: filterProducts_filter) (rule filter_cong, simp_all)
qed

theorem filterProducts_exact_witness:
  "map P_name (filterProducts ex_toLowerCase ex_catalog ''TOM'' ''All'') = [''Tomatoes'', ''Rice''] \<and>
   map P_name (filterProducts ex_toLowerCase ex_catalog ''alphonso'' ''Fruits'') = [''Mangoes''] \<and>
   map P_name (filterProducts ex_toLowerCase ex_catalog ''alphonso'' ''Grains'') = [] \<and>
   map P_name (filterProducts ex_toLowerCase ex_catalog [] ''Grains'') = [''Rice''] \<and>
   list_all is_ascii ''TOM'' \<and> list_all ascii_Product ex_catalog \<and>
   map P_name
     (filter (\<lambda>p. ci_contains ''TOM'' (P_name p) \<or> ci_contains_optional ''TOM'' (P_description p) \<or>
                   ci_contains_optional ''TOM'' (P_location p)) ex_catalog)
     = [''Tomatoes'', ''Rice'']"
proof -
  have low: "\<forall>s. list_all is_ascii s \<longrightarrow> ex_toLowerCase s = map ascii_lower s"
    by (simp add: ex_toLowerCase_ascii)
  from filterProducts_exact [of ex_toLowerCase ex_catalog "''TOM''" "''All''", THEN conjunct2]
    low ex_catalog_ascii
  have "filterProducts ex_toLowerCase ex_catalog ''TOM'' ''All'' =
      filter (\<lambda>p. (''All'' = ''All'' \<or> P_category p = ''All'') \<and>
                  (''TOM'' = [] \<or> ci_contains ''TOM'' (P_name p) \<or>
                   ci_contains_optional ''TOM'' (P_description p) \<or>
                   ci_contains_optional ''TOM'' (P_location p)))
        ex_catalog"
    by blast
  with ex_filterProducts(1) have "map P_name
     (filter (\<lambda>p. ci_contains ''TOM'' (P_name p) \<or> ci_contains_optional ''TOM'' (P_description p) \<or>
                   ci_contains_optional ''TOM'' (P_location p)) ex_catalog)
     = [''Tomatoes'', ''Rice'']"
    by simp
  with ex_filterProducts ex_catalog_ascii show ?thesis by simp
qed

end
